theory Spec2Isabelle
  imports Complex_Main "HOL-Library.Product_Lexorder"
begin

section \<open>The generation provider registry (services/ai\_manager.py)\<close>

text \<open>
  \<^verbatim>\<open>AIManager.providers\<close> is a dictionary from provider names to dictionaries of
  settings. One provider's settings are a record; the dictionary is an association list
  in insertion order, because \<^verbatim>\<open>get_best_provider\<close> sorts the items with a stable sort
  and the order of equal keys is the insertion order. The field \<^verbatim>\<open>max_errors\<close> is set
  for every provider in \<^verbatim>\<open>__init__\<close>, so \<^verbatim>\<open>provider.get('max_errors', 2)\<close> always reads
  the stored value. Python integers are unbounded (\<open>int\<close>). The clock \<^verbatim>\<open>time.time()\<close>
  is an argument of the functions that read it; its floating point seconds are taken
  as real numbers.
\<close>

record provider =
  available :: bool
  priority :: int
  error_count :: int
  max_errors :: int
  last_success :: "real option"
  consecutive_failures :: int

type_synonym providers = "(string \<times> provider) list"

text \<open>The module flags \<^verbatim>\<open>HAS_GEMINI\<close>, \<^verbatim>\<open>HAS_GROQ_CLIENT\<close>, \<^verbatim>\<open>HAS_OPENAI\<close>, set at import.\<close>

record flags =
  has_gemini :: bool
  has_groq_client :: bool
  has_openai :: bool

text \<open>\<^verbatim>\<open>self.providers[name]\<close> updated in place, for a name that is a key; no change otherwise.\<close>

definition update_provider :: "string \<Rightarrow> (provider \<Rightarrow> provider) \<Rightarrow> providers \<Rightarrow> providers" where
  "update_provider name f ps = map (\<lambda>(n, p). if n = name then (n, f p) else (n, p)) ps"

definition failure_step :: "provider \<Rightarrow> provider" where
  "failure_step p =
     (let p1 = p\<lparr>error_count := error_count p + 1,
                 consecutive_failures := consecutive_failures p + 1\<rparr>
      in if consecutive_failures p1 \<ge> max_errors p1 then p1\<lparr>available := False\<rparr> else p1)"

definition record_failure :: "string \<Rightarrow> providers \<Rightarrow> providers" where
  "record_failure provider_name ps = update_provider provider_name failure_step ps"

definition success_step :: "real \<Rightarrow> provider \<Rightarrow> provider" where
  "success_step now p =
     (let p1 = p\<lparr>consecutive_failures := 0, last_success := Some now\<rparr>
      in if \<not> available p1 then p1\<lparr>available := True\<rparr> else p1)"

definition record_success :: "real \<Rightarrow> string \<Rightarrow> providers \<Rightarrow> providers" where
  "record_success now provider_name ps = update_provider provider_name (success_step now) ps"

text \<open>
  The truth value of \<^verbatim>\<open>provider.get('last_success')\<close>: \<^verbatim>\<open>None\<close> and \<^verbatim>\<open>0.0\<close> are false.
\<close>

definition truthy_time :: "real option \<Rightarrow> bool" where
  "truthy_time t = (case t of None \<Rightarrow> False | Some x \<Rightarrow> x \<noteq> 0)"

definition cooldown_elapsed :: "real \<Rightarrow> provider \<Rightarrow> bool" where
  "cooldown_elapsed current_time p =
     (\<not> available p \<and> truthy_time (last_success p) \<and>
      (case last_success p of None \<Rightarrow> False | Some t \<Rightarrow> current_time - t > 300))"

definition reenabled :: "flags \<Rightarrow> string \<Rightarrow> bool" where
  "reenabled fl name =
     (if name = ''gemini'' \<and> has_gemini fl then True
      else if name = ''groq'' \<and> has_groq_client fl then True
      else if name = ''openai'' \<and> has_openai fl then True
      else if name = ''huggingface'' then True
      else False)"

definition reprobe :: "flags \<Rightarrow> real \<Rightarrow> string \<times> provider \<Rightarrow> string \<times> provider" where
  "reprobe fl current_time np =
     (case np of (name, p) \<Rightarrow>
        if cooldown_elapsed current_time p
        then (name, p\<lparr>error_count := 0, consecutive_failures := 0,
                       available := (if reenabled fl name then True else available p)\<rparr>)
        else (name, p))"

definition healthy :: "provider \<Rightarrow> bool" where
  "healthy p = (available p \<and> consecutive_failures p < max_errors p)"

definition reset_counters :: "provider \<Rightarrow> provider" where
  "reset_counters p = p\<lparr>error_count := 0, consecutive_failures := 0\<rparr>"

definition rank :: "string \<times> provider \<Rightarrow> int \<times> int" where
  "rank np = (priority (snd np), consecutive_failures (snd np))"

text \<open>
  \<^verbatim>\<open>get_best_provider\<close>: the re-enabling loop, the filter, the reset of the counters when
  the filter leaves nothing, the stable sort and the head of the list. It returns the name
  (or \<^verbatim>\<open>None\<close>) and the dictionary as the call leaves it.
\<close>

definition get_best_provider :: "flags \<Rightarrow> real \<Rightarrow> providers \<Rightarrow> string option \<times> providers" where
  "get_best_provider fl current_time ps =
     (let ps1 = map (reprobe fl current_time) ps;
          first_filter = filter (\<lambda>np. healthy (snd np)) ps1;
          ps2 = (if first_filter = [] then map (\<lambda>(n, p). (n, reset_counters p)) ps1 else ps1);
          available_providers =
            (if first_filter = [] then filter (\<lambda>np. available (snd np)) ps2 else first_filter)
      in (case sort_key rank available_providers of
            [] \<Rightarrow> None
          | np # _ \<Rightarrow> Some (fst np),
          ps2))"

text \<open>The dictionary \<^verbatim>\<open>__init__\<close> builds, before any client is initialised.\<close>

definition initial_providers :: providers where
  "initial_providers =
     [(''gemini'', \<lparr>available = False, priority = 1, error_count = 0, max_errors = 2,
                    last_success = None, consecutive_failures = 0\<rparr>),
      (''groq'', \<lparr>available = False, priority = 2, error_count = 0, max_errors = 2,
                  last_success = None, consecutive_failures = 0\<rparr>),
      (''openai'', \<lparr>available = False, priority = 3, error_count = 0, max_errors = 2,
                    last_success = None, consecutive_failures = 0\<rparr>),
      (''huggingface'', \<lparr>available = False, priority = 4, error_count = 0, max_errors = 3,
                         last_success = None, consecutive_failures = 0\<rparr>)]"

text \<open>
  A timed sequence of calls on the manager: the clock reading at each call and the call.
  \<^verbatim>\<open>_record_failure\<close> does not read the clock.
\<close>

datatype call = Record_success string | Record_failure string | Get_best_provider

fun run_call :: "flags \<Rightarrow> real \<times> call \<Rightarrow> providers \<Rightarrow> providers" where
  "run_call fl (t, Record_success n) ps = record_success t n ps"
| "run_call fl (t, Record_failure n) ps = record_failure n ps"
| "run_call fl (t, Get_best_provider) ps = snd (get_best_provider fl t ps)"

fun run_calls :: "flags \<Rightarrow> (real \<times> call) list \<Rightarrow> providers \<Rightarrow> providers" where
  "run_calls fl [] ps = ps"
| "run_calls fl (c # cs) ps = run_calls fl cs (run_call fl c ps)"

definition lookup :: "providers \<Rightarrow> string \<Rightarrow> provider option" where
  "lookup ps name = map_of ps name"

text \<open>
  A concrete manager for the examples: every library is installed, and
  \<^verbatim>\<open>initialize_providers\<close> found the keys of Gemini and Groq only.
\<close>

definition all_flags :: flags where
  "all_flags = \<lparr>has_gemini = True, has_groq_client = True, has_openai = True\<rparr>"

definition configured_providers :: providers where
  "configured_providers =
     update_provider ''groq'' (\<lambda>p. p\<lparr>available := True\<rparr>)
       (update_provider ''gemini'' (\<lambda>p. p\<lparr>available := True\<rparr>) initial_providers)"


section \<open>The search provider group and its cache (services/production\_search\_manager.py)\<close>

text \<open>
  \<^verbatim>\<open>ProductionSearchManager.providers\<close> maps a provider name to its settings; the fields
  the manager's logic reads are \<^verbatim>\<open>enabled\<close>, \<^verbatim>\<open>priority\<close>, \<^verbatim>\<open>error_count\<close> and
  \<^verbatim>\<open>max_errors\<close> (written here with the prefix \<open>s_\<close>, the plain names being fields of the
  generation providers). Every provider of \<^verbatim>\<open>__init__\<close> has all four, so the defaults of
  \<^verbatim>\<open>provider.get\<close> are read only for a name that is not a key, where
  \<^verbatim>\<open>self.providers.get(provider_name, {})\<close> is the empty dictionary.
\<close>

record search_provider =
  enabled :: bool
  s_priority :: int
  s_error_count :: int
  s_max_errors :: int

type_synonym search_providers = "(string \<times> search_provider) list"

definition is_provider_available :: "search_providers \<Rightarrow> string \<Rightarrow> bool" where
  "is_provider_available ps provider_name =
     (case map_of ps provider_name of
        None \<Rightarrow> False
      | Some p \<Rightarrow> enabled p \<and> s_error_count p < s_max_errors p)"

definition record_provider_error :: "string \<Rightarrow> search_providers \<Rightarrow> search_providers" where
  "record_provider_error provider_name ps =
     map (\<lambda>(n, p). if n = provider_name then (n, p\<lparr>s_error_count := s_error_count p + 1\<rparr>)
                     else (n, p)) ps"

text \<open>\<^verbatim>\<open>reset_provider_errors\<close>: one provider when a (non-empty) name is given, all otherwise.\<close>

definition reset_provider_errors :: "string option \<Rightarrow> search_providers \<Rightarrow> search_providers" where
  "reset_provider_errors provider_name ps =
     (case provider_name of
        None \<Rightarrow> map (\<lambda>(n, p). (n, p\<lparr>s_error_count := 0\<rparr>)) ps
      | Some name \<Rightarrow>
          if name = [] then map (\<lambda>(n, p). (n, p\<lparr>s_error_count := 0\<rparr>)) ps
          else map (\<lambda>(n, p). if n = name then (n, p\<lparr>s_error_count := 0\<rparr>) else (n, p)) ps)"

definition search_rank :: "string \<times> search_provider \<Rightarrow> int \<times> int" where
  "search_rank np = (s_priority (snd np), s_error_count (snd np))"

definition get_provider_order :: "search_providers \<Rightarrow> string list" where
  "get_provider_order ps =
     map fst (sort_key search_rank (filter (\<lambda>np. is_provider_available ps (fst np)) ps))"

subsection \<open>The cache\<close>

text \<open>
  \<^verbatim>\<open>self.cache\<close> maps a key to the results, the clock reading at insertion and the name
  of the provider. \<^verbatim>\<open>self.cache_ttl\<close> is set to 3600 in \<^verbatim>\<open>__init__\<close> and never assigned
  again. The results are of any type \<open>'r\<close>.
\<close>

record 'r cache_entry =
  results :: 'r
  timestamp :: real
  entry_provider :: string

type_synonym 'r cache = "string \<rightharpoonup> 'r cache_entry"

definition cache_ttl :: real where
  "cache_ttl = 3600"

definition get_from_cache :: "real \<Rightarrow> string \<Rightarrow> 'r cache \<Rightarrow> 'r option \<times> 'r cache" where
  "get_from_cache now cache_key cache =
     (case cache cache_key of
        None \<Rightarrow> (None, cache)
      | Some cache_data \<Rightarrow>
          if now - timestamp cache_data < cache_ttl then (Some (results cache_data), cache)
          else (None, cache(cache_key := None)))"

definition save_to_cache :: "real \<Rightarrow> string \<Rightarrow> 'r \<Rightarrow> string \<Rightarrow> 'r cache \<Rightarrow> 'r cache" where
  "save_to_cache now cache_key res prov cache =
     cache(cache_key \<mapsto> \<lparr>results = res, timestamp = now, entry_provider = prov\<rparr>)"

subsection \<open>The two searches\<close>

text \<open>
  What lies outside the manager is a parameter: \<open>backend name query n\<close> is the outcome of
  the request \<^verbatim>\<open>_search_exa\<close>, \<^verbatim>\<open>_search_google\<close>, \<^verbatim>\<open>_search_serper\<close> or \<^verbatim>\<open>_search_bing\<close>
  makes (\<open>Inl\<close> the message of the exception it raises, \<open>Inr\<close> the list it returns);
  \<open>validate\<close> is \<^verbatim>\<open>_validate_results\<close>, which rests on \<^verbatim>\<open>urlparse\<close>; \<open>key_of\<close> is the MD5
  digest of \<^verbatim>\<open>_generate_cache_key\<close>. None of the four request functions writes
  \<^verbatim>\<open>self.providers\<close>. Every search returns, beside its value, the names of the providers
  it invoked, in order.
\<close>

type_synonym 'r backend = "string \<Rightarrow> string \<Rightarrow> int \<Rightarrow> string + 'r list"

definition known_provider :: "string \<Rightarrow> bool" where
  "known_provider provider_name =
     (provider_name = ''exa'' \<or> provider_name = ''google'' \<or> provider_name = ''serper'' \<or>
      provider_name = ''bing'')"

text \<open>
  The loop of \<^verbatim>\<open>search_with_fallback\<close> over the provider order: \<open>Some\<close> the validated
  results and the provider when a provider delivers, \<open>None\<close> when the loop runs out.
\<close>

fun fallback_loop ::
  "'r backend \<Rightarrow> ('r list \<Rightarrow> 'r list) \<Rightarrow> string \<Rightarrow> int \<Rightarrow> string list \<Rightarrow>
   search_providers \<Rightarrow> string list \<Rightarrow> ('r list \<times> string) option \<times> search_providers \<times> string list"
where
  "fallback_loop backend validate query max_results [] ps calls = (None, ps, calls)"
| "fallback_loop backend validate query max_results (provider_name # rest) ps calls =
     (if \<not> is_provider_available ps provider_name
      then fallback_loop backend validate query max_results rest ps calls
      else if \<not> known_provider provider_name
      then fallback_loop backend validate query max_results rest ps calls
      else case backend provider_name query max_results of
        Inl e \<Rightarrow>
          fallback_loop backend validate query max_results rest
            (record_provider_error provider_name ps) (calls @ [provider_name])
      | Inr res \<Rightarrow>
          if res \<noteq> [] \<and> validate res \<noteq> []
          then (Some (validate res, provider_name), ps, calls @ [provider_name])
          else fallback_loop backend validate query max_results rest ps
                 (calls @ [provider_name]))"

text \<open>\<^verbatim>\<open>str.strip()\<close> on ASCII text: the whitespace characters at both ends go.\<close>

definition is_space :: "char \<Rightarrow> bool" where
  "is_space c = (c = CHR '' '' \<or> ((9::nat) \<le> of_char c \<and> of_char c \<le> (13::nat)) \<or>
     ((28::nat) \<le> of_char c \<and> of_char c \<le> (31::nat)))"

definition strip :: "string \<Rightarrow> string" where
  "strip s = rev (dropWhile is_space (rev (dropWhile is_space s)))"

record 'r search_state =
  providers_of :: search_providers
  cache_of :: "'r list cache"

text \<open>
  \<^verbatim>\<open>search_with_fallback\<close>. The clock is read at the cache lookup (\<open>now\<close>) and again when
  a result is saved (\<open>later\<close>). A cached list that is empty counts as a miss
  (\<^verbatim>\<open>if cached_result:\<close>).
\<close>

definition search_with_fallback ::
  "'r backend \<Rightarrow> ('r list \<Rightarrow> 'r list) \<Rightarrow> (string \<Rightarrow> int \<Rightarrow> string) \<Rightarrow> real \<Rightarrow> real \<Rightarrow>
   string \<Rightarrow> int \<Rightarrow> 'r search_state \<Rightarrow> 'r list \<times> string list \<times> 'r search_state"
where
  "search_with_fallback backend validate key_of now later query0 max_results st =
     (if query0 = [] \<or> strip query0 = [] then ([], [], st)
      else
        let query = strip query0;
            cache_key = key_of query max_results;
            (cached_result, cache1) = get_from_cache now cache_key (cache_of st)
        in case cached_result of
             Some (r # rs) \<Rightarrow> (r # rs, [], st\<lparr>cache_of := cache1\<rparr>)
           | _ \<Rightarrow>
             (case fallback_loop backend validate query max_results
                     (get_provider_order (providers_of st)) (providers_of st) [] of
                (Some (validated_results, provider_name), ps1, calls) \<Rightarrow>
                  (validated_results, calls,
                   \<lparr>providers_of = ps1,
                    cache_of = save_to_cache later cache_key validated_results provider_name cache1\<rparr>)
              | (None, ps1, calls) \<Rightarrow>
                  ([], calls, \<lparr>providers_of = ps1, cache_of = cache1\<rparr>)))"

text \<open>
  \<^verbatim>\<open>comprehensive_search\<close>, up to the list \<^verbatim>\<open>all_results\<close> it collects: the four blocks
  in order, each behind its availability test. An exception of a request is appended to
  \<^verbatim>\<open>errors\<close> and nothing is recorded on the provider. \<open>keep name\<close> is the filter the block
  of that provider applies to what the request returned (the snippet's length for exa, a
  non-empty url for google and serper, everything for bing). What follows in the source
  (duplicates, scores, sorting, the cut at \<^verbatim>\<open>num_results\<close>) invokes no provider and
  writes neither \<^verbatim>\<open>self.providers\<close> nor the cache.
\<close>

definition search_block ::
  "'r backend \<Rightarrow> (string \<Rightarrow> 'r \<Rightarrow> bool) \<Rightarrow> search_providers \<Rightarrow> string \<Rightarrow> int \<Rightarrow>
   string \<Rightarrow> bool \<Rightarrow> 'r list \<times> string list \<Rightarrow> 'r list \<times> string list"
where
  "search_block backend keep ps query n provider_name wanted acc =
     (case acc of (all_results, calls) \<Rightarrow>
        if wanted \<and> is_provider_available ps provider_name
        then (case backend provider_name query n of
                Inl e \<Rightarrow> (all_results, calls @ [provider_name])
              | Inr res \<Rightarrow> (all_results @ filter (keep provider_name) res, calls @ [provider_name]))
        else (all_results, calls))"

definition comprehensive_search ::
  "'r backend \<Rightarrow> (string \<Rightarrow> 'r \<Rightarrow> bool) \<Rightarrow> string \<Rightarrow> int \<Rightarrow> search_providers \<Rightarrow>
   'r list \<times> string list"
where
  "comprehensive_search backend keep query num_results ps =
     (let a1 = search_block backend keep ps query (min 8 num_results) ''exa'' True ([], []);
          a2 = search_block backend keep ps query (min 7 num_results) ''google''
                 (int (length (fst a1)) < num_results div 2) a1;
          a3 = search_block backend keep ps query (min 5 num_results) ''serper''
                 (int (length (fst a2)) < num_results div 3) a2;
          a4 = search_block backend keep ps query (min 5 num_results) ''bing''
                 (length (fst a3) = 0) a3
      in a4)"

text \<open>
  A sequence of searches on one manager, each with its own clock readings and its own
  behaviour of the outside world; the names of all providers invoked are collected.
\<close>

datatype 'r search_request =
    Fallback "'r backend" "'r list \<Rightarrow> 'r list" "string \<Rightarrow> int \<Rightarrow> string" real real string int
  | Comprehensive "'r backend" "string \<Rightarrow> 'r \<Rightarrow> bool" string int

fun run_search :: "'r search_request \<Rightarrow> 'r search_state \<Rightarrow> string list \<times> 'r search_state" where
  "run_search (Fallback backend validate key_of now later query max_results) st =
     snd (search_with_fallback backend validate key_of now later query max_results st)"
| "run_search (Comprehensive backend keep query num_results) st =
     (snd (comprehensive_search backend keep query num_results (providers_of st)), st)"

fun run_searches ::
  "'r search_request list \<Rightarrow> 'r search_state \<Rightarrow> string list \<times> 'r search_state" where
  "run_searches [] st = ([], st)"
| "run_searches (r # rs) st =
     (case run_search r st of (calls, st1) \<Rightarrow>
        case run_searches rs st1 of (calls', st2) \<Rightarrow> (calls @ calls', st2))"

text \<open>The search providers of \<^verbatim>\<open>__init__\<close> when only Bing and Serper are enabled.\<close>

definition example_search_providers :: search_providers where
  "example_search_providers =
     [(''exa'', \<lparr>enabled = False, s_priority = 1, s_error_count = 0, s_max_errors = 3\<rparr>),
      (''google'', \<lparr>enabled = False, s_priority = 2, s_error_count = 0, s_max_errors = 3\<rparr>),
      (''serper'', \<lparr>enabled = True, s_priority = 3, s_error_count = 0, s_max_errors = 3\<rparr>),
      (''bing'', \<lparr>enabled = True, s_priority = 4, s_error_count = 0, s_max_errors = 5\<rparr>)]"

text \<open>An outside world in which Serper always raises and Bing returns one result.\<close>

definition serper_down :: "string backend" where
  "serper_down provider_name query n =
     (if provider_name = ''serper'' then Inl ''Serper API retornou status 500''
      else Inr [''https://example.org/'' @ query])"

text \<open>
  Three searches during which Serper fails each time, and two searches long after them.
  The validation and the cache key are the simplest ones.
\<close>

definition three_failures :: "string search_request list" where
  "three_failures =
     [Fallback serper_down id (\<lambda>q n. q) 10 11 ''a'' 10,
      Fallback serper_down id (\<lambda>q n. q) 20 21 ''b'' 10,
      Fallback serper_down id (\<lambda>q n. q) 30 31 ''c'' 10]"

definition later_searches :: "string search_request list" where
  "later_searches =
     [Fallback serper_down id (\<lambda>q n. q) 100000 100001 ''d'' 10,
      Comprehensive serper_down (\<lambda>n r. True) ''e'' 15]"

definition fresh_search_state :: "string search_state" where
  "fresh_search_state = \<lparr>providers_of = example_search_providers, cache_of = Map.empty\<rparr>"

section \<open>The orchestrator (services/super\_orchestrator.py)\<close>

subsection \<open>Python values\<close>

text \<open>
  The values the orchestrator handles are JSON-like: results of service methods, the
  request data, the stage results. A dictionary is an association list in insertion
  order, its keys distinct strings. An exception is represented by its message, which is
  all the code reads of it (\<^verbatim>\<open>str(e)\<close>); the messages of the interpreter's own errors
  are those of CPython 3.11, and no property below depends on their wording. Only
  subclasses of \<^verbatim>\<open>Exception\<close> are modelled, those that \<^verbatim>\<open>except Exception\<close> catches.
  Letters with diacritics and pictographs in the source's string literals are written
  here without them (the file is ASCII).
\<close>

datatype pyval =
    PNone
  | PBool bool
  | PInt int
  | PFloat real
  | PStr string
  | PList "pyval list"
  | PDict "(string \<times> pyval) list"

type_synonym exn = string

type_synonym 'a result = "exn + 'a"

definition then_do :: "'a result \<Rightarrow> ('a \<Rightarrow> 'b result) \<Rightarrow> 'b result" where
  "then_do m f = (case m of Inl e \<Rightarrow> Inl e | Inr v \<Rightarrow> f v)"

fun truthy :: "pyval \<Rightarrow> bool" where
  "truthy PNone = False"
| "truthy (PBool b) = b"
| "truthy (PInt i) = (i \<noteq> 0)"
| "truthy (PFloat x) = (x \<noteq> 0)"
| "truthy (PStr s) = (s \<noteq> [])"
| "truthy (PList xs) = (xs \<noteq> [])"
| "truthy (PDict d) = (d \<noteq> [])"

fun type_name :: "pyval \<Rightarrow> string" where
  "type_name PNone = ''NoneType''"
| "type_name (PBool b) = ''bool''"
| "type_name (PInt i) = ''int''"
| "type_name (PFloat x) = ''float''"
| "type_name (PStr s) = ''str''"
| "type_name (PList xs) = ''list''"
| "type_name (PDict d) = ''dict''"

definition quoted :: "string \<Rightarrow> string" where
  "quoted s = CHR 0x27 # s @ [CHR 0x27]"

fun is_dict :: "pyval \<Rightarrow> bool" where
  "is_dict (PDict d) = True"
| "is_dict v = False"

text \<open>\<^verbatim>\<open>obj.get(key, default)\<close>: defined on dictionaries, \<^verbatim>\<open>AttributeError\<close> elsewhere.\<close>

fun py_get :: "pyval \<Rightarrow> string \<Rightarrow> pyval \<Rightarrow> pyval result" where
  "py_get (PDict d) key dflt = Inr (case map_of d key of None \<Rightarrow> dflt | Some v \<Rightarrow> v)"
| "py_get obj key dflt =
     Inl (quoted (type_name obj) @ '' object has no attribute '' @ quoted ''get'')"

text \<open>\<^verbatim>\<open>len(obj)\<close>.\<close>

fun py_len :: "pyval \<Rightarrow> int result" where
  "py_len (PStr s) = Inr (int (length s))"
| "py_len (PList xs) = Inr (int (length xs))"
| "py_len (PDict d) = Inr (int (length d))"
| "py_len obj = Inl (''object of type '' @ quoted (type_name obj) @ '' has no len()'')"

text \<open>\<^verbatim>\<open>for x in obj\<close>: the items of a list, the characters of a string, the keys of a dictionary.\<close>

fun py_iter :: "pyval \<Rightarrow> pyval list result" where
  "py_iter (PList xs) = Inr xs"
| "py_iter (PStr s) = Inr (map (\<lambda>c. PStr [c]) s)"
| "py_iter (PDict d) = Inr (map (\<lambda>kv. PStr (fst kv)) d)"
| "py_iter obj = Inl (quoted (type_name obj) @ '' object is not iterable'')"

text \<open>\<^verbatim>\<open>obj[:n]\<close>.\<close>

fun py_slice :: "pyval \<Rightarrow> nat \<Rightarrow> pyval result" where
  "py_slice (PList xs) n = Inr (PList (take n xs))"
| "py_slice (PStr s) n = Inr (PStr (take n s))"
| "py_slice (PDict d) n = Inl (''unhashable type: '' @ quoted ''slice'')"
| "py_slice obj n = Inl (quoted (type_name obj) @ '' object is not subscriptable'')"

text \<open>\<^verbatim>\<open>obj > 0\<close>.\<close>

fun py_positive :: "pyval \<Rightarrow> bool result" where
  "py_positive (PInt i) = Inr (0 < i)"
| "py_positive (PBool b) = Inr b"
| "py_positive (PFloat x) = Inr (0 < x)"
| "py_positive obj =
     Inl (quoted ''>'' @ '' not supported between instances of '' @ quoted (type_name obj) @
          '' and '' @ quoted ''int'')"

text \<open>Running the items of a list through a fallible function, stopping at the first error.\<close>

fun map_result :: "('a \<Rightarrow> 'b result) \<Rightarrow> 'a list \<Rightarrow> 'b list result" where
  "map_result f [] = Inr []"
| "map_result f (x # xs) =
     then_do (f x) (\<lambda>y. then_do (map_result f xs) (\<lambda>ys. Inr (y # ys)))"

subsection \<open>Services, their operation tables and the world outside\<close>

text \<open>
  A method of a service takes positional and keyword arguments and either raises or
  returns a value; its outcome is taken as a function of its arguments. An asynchronous
  method is awaited by the router, so it has the same shape. \<^verbatim>\<open>self.services\<close> is given
  by its keys, \<^verbatim>\<open>self.service_methods\<close> by the table of every service.
\<close>

type_synonym args = "pyval list \<times> (string \<times> pyval) list"

type_synonym service_method = "args \<Rightarrow> pyval result"

record session =
  status :: string
  start_time :: real
  components_completed :: "pyval list"
  errors :: "pyval list"
  recursion_prevented :: int
  real_data_only :: bool
  execution_time :: "real option"

record orchestrator =
  services :: "string list"
  service_methods :: "(string \<times> (string \<times> service_method) list) list"
  execution_state :: "string \<rightharpoonup> session"
  global_recursion_depth :: "(string \<times> int) list"

text \<open>
  What the module imports or reads from outside: \<^verbatim>\<open>enhanced_search_coordinator.perform_search\<close>
  (\<open>None\<close> when the coordinator is missing or has no such method),
  \<^verbatim>\<open>enhanced_mcp_fallback_manager.enhanced_social_search\<close> (\<open>None\<close> when the manager is
  missing), Python's \<^verbatim>\<open>str()\<close> as the f-strings apply it, the text of
  \<^verbatim>\<open>datetime.now().isoformat()\<close>, the two readings of \<^verbatim>\<open>time.time()\<close> of a run, and
  whether \<^verbatim>\<open>salvar_erro\<close> raises (\<open>Some\<close> the exception). \<^verbatim>\<open>salvar_etapa\<close> is called in
  \<^verbatim>\<open>_salvar_relatorios_modulos\<close> only, inside a \<^verbatim>\<open>try\<close> that catches what it raises, and
  returns nothing that is read.
\<close>

record world =
  perform_search :: "service_method option"
  enhanced_social_search :: "service_method option"
  fmt :: "pyval \<Rightarrow> string"
  now_iso :: string
  clock_start :: real
  clock_end :: real
  salvar_erro :: "exn option"

subsection \<open>The capability router\<close>

text \<open>
  The loop of \<^verbatim>\<open>_safe_call_service_method\<close> over the patterns: a pattern that is not a
  key of the table is passed over; a method that raises, or returns a false value, lets
  the loop go on. The result is the first true value returned, if any, and the names of
  the methods called, in order.
\<close>

fun try_patterns ::
  "(string \<times> service_method) list \<Rightarrow> args \<Rightarrow> string list \<Rightarrow> pyval option \<times> string list" where
  "try_patterns available_methods a [] = (None, [])"
| "try_patterns available_methods a (pattern # rest) =
     (case map_of available_methods pattern of
        None \<Rightarrow> try_patterns available_methods a rest
      | Some m \<Rightarrow>
          (case m a of
             Inr res \<Rightarrow>
               if truthy res then (Some res, [pattern])
               else (case try_patterns available_methods a rest of
                       (r, calls) \<Rightarrow> (r, pattern # calls))
           | Inl method_error \<Rightarrow>
               (case try_patterns available_methods a rest of
                  (r, calls) \<Rightarrow> (r, pattern # calls))))"

definition method_not_found :: "string \<Rightarrow> (string \<times> service_method) list \<Rightarrow> string list \<Rightarrow> pyval" where
  "method_not_found service_name available_methods method_patterns =
     PDict [(''status'', PStr ''method_not_found''),
            (''error'', PStr (''Nenhum metodo valido encontrado para '' @ service_name)),
            (''available_methods'', PList (map (\<lambda>kv. PStr (fst kv)) available_methods)),
            (''tried_patterns'', PList (map PStr method_patterns))]"

text \<open>\<^verbatim>\<open>self.service_methods.get(service_name, {})\<close>.\<close>

definition table_of :: "orchestrator \<Rightarrow> string \<Rightarrow> (string \<times> service_method) list" where
  "table_of orch service_name =
     (case map_of (service_methods orch) service_name of None \<Rightarrow> [] | Some t \<Rightarrow> t)"

text \<open>
  \<^verbatim>\<open>_safe_call_service_method\<close>. Nothing outside the inner \<^verbatim>\<open>try\<close> raises on these
  values, so the \<^verbatim>\<open>critical_error\<close> result of the outer handler is never produced.
\<close>

definition safe_call_service_method ::
  "orchestrator \<Rightarrow> string \<Rightarrow> string list \<Rightarrow> args \<Rightarrow> pyval \<times> string list" where
  "safe_call_service_method orch service_name method_patterns a =
     (if service_name \<notin> set (services orch)
      then (PDict [(''status'', PStr ''service_unavailable''),
                   (''error'', PStr (''Servico '' @ service_name @ '' nao disponivel''))], [])
      else
        let available_methods = table_of orch service_name
        in case try_patterns available_methods a method_patterns of
             (Some res, calls) \<Rightarrow> (res, calls)
           | (None, calls) \<Rightarrow>
               (method_not_found service_name available_methods method_patterns, calls))"

text \<open>Whether a call of a method counts as a success for the router.\<close>

definition succeeds :: "(string \<times> service_method) list \<Rightarrow> args \<Rightarrow> string \<Rightarrow> bool" where
  "succeeds available_methods a pattern =
     (case map_of available_methods pattern of
        None \<Rightarrow> False
      | Some m \<Rightarrow> (case m a of Inl e \<Rightarrow> False | Inr res \<Rightarrow> truthy res))"

definition returned :: "(string \<times> service_method) list \<Rightarrow> args \<Rightarrow> string \<Rightarrow> pyval" where
  "returned available_methods a pattern =
     (case map_of available_methods pattern of
        None \<Rightarrow> PNone
      | Some m \<Rightarrow> (case m a of Inl e \<Rightarrow> PNone | Inr res \<Rightarrow> res))"

text \<open>A service whose table holds \<^verbatim>\<open>bar\<close> only, and one whose first method raises.\<close>

definition bar_service :: orchestrator where
  "bar_service =
     \<lparr>services = [''svc''],
      service_methods = [(''svc'', [(''bar'', \<lambda>a. Inr (PDict [(''status'', PStr ''success'')]))])],
      execution_state = Map.empty, global_recursion_depth = []\<rparr>"

definition flaky_service :: orchestrator where
  "flaky_service =
     \<lparr>services = [''svc''],
      service_methods =
        [(''svc'', [(''a'', \<lambda>a. Inl ''boom''), (''b'', \<lambda>a. Inr (PDict [])),
                    (''c'', \<lambda>a. Inr (PInt 7)), (''d'', \<lambda>a. Inr (PInt 8))])],
      execution_state = Map.empty, global_recursion_depth = []\<rparr>"

subsection \<open>The stages\<close>

text \<open>
  Every stage function is one \<^verbatim>\<open>try\<close> block whose handler returns a dictionary with
  status \<^verbatim>\<open>error\<close> and the message: \<open>guarded\<close> is that block. The router's list of
  called methods is dropped here (\<open>fst\<close>); the stages read its result only.
\<close>

definition guarded :: "pyval result \<Rightarrow> (exn \<Rightarrow> pyval) \<Rightarrow> pyval" where
  "guarded body handler = (case body of Inl e \<Rightarrow> handler e | Inr v \<Rightarrow> v)"

definition call_service :: "orchestrator \<Rightarrow> string \<Rightarrow> string list \<Rightarrow> args \<Rightarrow> pyval" where
  "call_service orch service_name method_patterns a =
     fst (safe_call_service_method orch service_name method_patterns a)"

text \<open>\<^verbatim>\<open>r and r.get('status') == 'success'\<close> and \<^verbatim>\<open>r and r.get('status') != 'method_not_found'\<close>.\<close>

definition is_success :: "pyval \<Rightarrow> bool result" where
  "is_success r =
     (if truthy r then then_do (py_get r ''status'' PNone) (\<lambda>st. Inr (st = PStr ''success''))
      else Inr False)"

definition is_found :: "pyval \<Rightarrow> bool result" where
  "is_found r =
     (if truthy r
      then then_do (py_get r ''status'' PNone) (\<lambda>st. Inr (st \<noteq> PStr ''method_not_found''))
      else Inr False)"

text \<open>\<^verbatim>\<open>len(d.get(key, []))\<close> and \<^verbatim>\<open>bool(d.get(key))\<close>.\<close>

definition len_of :: "pyval \<Rightarrow> string \<Rightarrow> pyval result" where
  "len_of d key = then_do (py_get d key (PList [])) (\<lambda>v. then_do (py_len v) (\<lambda>n. Inr (PInt n)))"

definition bool_of :: "pyval \<Rightarrow> string \<Rightarrow> pyval result" where
  "bool_of d key = then_do (py_get d key PNone) (\<lambda>v. Inr (PBool (truthy v)))"

paragraph \<open>Phase 1: \<^verbatim>\<open>_execute_real_web_search_async\<close>\<close>

definition web_search_fallback :: pyval where
  "web_search_fallback =
     PDict [(''status'', PStr ''fallback''), (''processed_results'', PList []),
            (''source'', PStr ''fallback_basic'')]"

definition execute_real_web_search_body :: "orchestrator \<Rightarrow> world \<Rightarrow> pyval \<Rightarrow> string \<Rightarrow> pyval result"
where
  "execute_real_web_search_body orch w data session_id =
     then_do (py_get data ''query'' PNone) (\<lambda>q.
     then_do (if truthy q then Inr q
              else then_do (py_get data ''segmento'' (PStr [])) (\<lambda>seg.
                   then_do (py_get data ''produto'' (PStr [])) (\<lambda>prod.
                   Inr (PStr (''mercado '' @ fmt w seg @ '' '' @ fmt w prod @ '' Brasil 2024'')))))
       (\<lambda>query.
     then_do (if ''websailor'' \<in> set (services orch)
              then (let websailor_results =
                          call_service orch ''websailor''
                            [''navigate_and_research_deep'', ''research_deep'',
                             ''navigate_and_research'', ''research'', ''search_deep'']
                            ([query, data],
                             [(''max_pages'', PInt 20), (''depth_levels'', PInt 3),
                              (''session_id'', PStr session_id)])
                    in then_do (is_success websailor_results) (\<lambda>ok.
                       Inr (if ok then Some websailor_results else None)))
              else Inr None)
       (\<lambda>found.
     case found of
       Some websailor_results \<Rightarrow> Inr websailor_results
     | None \<Rightarrow>
         (case perform_search w of
            None \<Rightarrow> Inr web_search_fallback
          | Some m \<Rightarrow>
              (case m ([query, PStr session_id], []) of
                 Inl e \<Rightarrow> Inr web_search_fallback
               | Inr search_results \<Rightarrow>
                   if truthy search_results
                   then Inr (PDict [(''status'', PStr ''success''),
                                    (''processed_results'', search_results),
                                    (''source'', PStr ''enhanced_search'')])
                   else Inr web_search_fallback)))))"

definition execute_real_web_search :: "orchestrator \<Rightarrow> world \<Rightarrow> pyval \<Rightarrow> string \<Rightarrow> pyval" where
  "execute_real_web_search orch w data session_id =
     guarded (execute_real_web_search_body orch w data session_id)
       (\<lambda>e. PDict [(''status'', PStr ''error''), (''processed_results'', PList []),
                    (''error'', PStr e)])"

paragraph \<open>Phase 2: \<^verbatim>\<open>_execute_real_social_analysis_async\<close>\<close>

definition social_limited :: pyval where
  "social_limited =
     PDict [(''status'', PStr ''limited''), (''platforms_data'', PDict []),
            (''total_posts'', PInt 0),
            (''error'', PStr ''Nenhum servico de redes sociais disponivel''),
            (''message'', PStr ''Configure APIs reais ou MCPs para obter dados sociais'')]"

definition execute_real_social_analysis_body :: "orchestrator \<Rightarrow> world \<Rightarrow> pyval \<Rightarrow> string \<Rightarrow> pyval result"
where
  "execute_real_social_analysis_body orch w data session_id =
     then_do (py_get data ''segmento'' (PStr [])) (\<lambda>seg.
     then_do (py_get data ''produto'' (PStr [])) (\<lambda>prod.
     let query = PStr (fmt w seg @ '' '' @ fmt w prod) in
     then_do (if ''supadata'' \<in> set (services orch)
              then (let social_results =
                          call_service orch ''supadata''
                            [''search_all_platforms'', ''search_platforms'', ''search_all'',
                             ''search'', ''analyze_platforms'']
                            ([query], [(''max_results_per_platform'', PInt 15)])
                    in then_do (is_found social_results) (\<lambda>found.
                       if \<not> found then Inr None
                       else then_do (py_get social_results ''total_results'' (PInt 0)) (\<lambda>total.
                            then_do (py_positive total) (\<lambda>pos.
                            if \<not> pos then Inr None
                            else then_do (py_get social_results ''total_results'' (PInt 0)) (\<lambda>posts.
                                 Inr (Some (PDict [(''status'', PStr ''success''),
                                                   (''platforms_data'', social_results),
                                                   (''total_posts'', posts),
                                                   (''source'', PStr ''supadata'')])))))))
              else Inr None)
       (\<lambda>found.
     case found of
       Some r \<Rightarrow> Inr r
     | None \<Rightarrow>
         (case enhanced_social_search w of
            None \<Rightarrow> Inr social_limited
          | Some m \<Rightarrow>
              then_do (m ([query], [])) (\<lambda>mcp_results.
              then_do (py_get mcp_results ''total_results'' (PInt 0)) (\<lambda>total.
              then_do (py_positive total) (\<lambda>pos.
              if pos
              then Inr (PDict [(''status'', PStr ''success''), (''platforms_data'', mcp_results),
                               (''total_posts'', total),
                               (''source'', PStr ''enhanced_mcp_fallback'')])
              else Inr social_limited)))))))"

definition execute_real_social_analysis :: "orchestrator \<Rightarrow> world \<Rightarrow> pyval \<Rightarrow> string \<Rightarrow> pyval" where
  "execute_real_social_analysis orch w data session_id =
     guarded (execute_real_social_analysis_body orch w data session_id)
       (\<lambda>e. PDict [(''status'', PStr ''error''), (''total_posts'', PInt 0), (''error'', PStr e)])"

paragraph \<open>Phase 3: \<^verbatim>\<open>_execute_real_avatar_analysis_async\<close>\<close>

definition execute_real_avatar_analysis_body ::
  "orchestrator \<Rightarrow> world \<Rightarrow> pyval \<Rightarrow> pyval \<Rightarrow> pyval \<Rightarrow> string \<Rightarrow> pyval result"
where
  "execute_real_avatar_analysis_body orch w web_data social_data project_data session_id =
     then_do (if ''ai_manager'' \<in> set (services orch)
              then (let ai_avatar =
                          call_service orch ''ai_manager''
                            [''create_avatar'', ''analyze_avatar'', ''build_avatar'',
                             ''generate_avatar'', ''create_persona'']
                            ([web_data, social_data, project_data, PStr session_id], [])
                    in then_do (is_success ai_avatar) (\<lambda>ok.
                       Inr (if ok then Some ai_avatar else None)))
              else Inr None)
       (\<lambda>found.
     case found of
       Some ai_avatar \<Rightarrow> Inr ai_avatar
     | None \<Rightarrow>
         then_do (py_get project_data ''segmento'' (PStr ''Profissional'')) (\<lambda>seg.
         then_do (len_of web_data ''processed_results'') (\<lambda>web_sources.
         Inr (PDict
           [(''status'', PStr ''success''),
            (''nome_ficticio'', PStr (''Avatar '' @ fmt w seg)),
            (''dores_viscerais_unificadas'',
               PList [PStr ''Falta de tempo'', PStr ''Dificuldade em decidir'']),
            (''desejos_secretos_unificados'', PList [PStr ''Reconhecimento'', PStr ''Estabilidade'']),
            (''objecoes_principais'', PList [PStr ''Preco alto'', PStr ''Falta de confianca'']),
            (''fonte_dados'',
               PDict [(''data_real'', PBool True), (''web_sources'', web_sources)])]))))"

definition execute_real_avatar_analysis ::
  "orchestrator \<Rightarrow> world \<Rightarrow> pyval \<Rightarrow> pyval \<Rightarrow> pyval \<Rightarrow> string \<Rightarrow> pyval" where
  "execute_real_avatar_analysis orch w web_data social_data project_data session_id =
     guarded (execute_real_avatar_analysis_body orch w web_data social_data project_data session_id)
       (\<lambda>e. PDict [(''status'', PStr ''error''), (''error'', PStr e)])"

paragraph \<open>Phase 4: \<^verbatim>\<open>_execute_real_mental_drivers_async\<close>\<close>

definition mental_drivers_fallback :: pyval where
  "mental_drivers_fallback =
     PDict [(''status'', PStr ''fallback''), (''drivers_customizados'', PList [])]"

definition execute_real_mental_drivers_body ::
  "orchestrator \<Rightarrow> world \<Rightarrow> pyval \<Rightarrow> pyval \<Rightarrow> pyval \<Rightarrow> string \<Rightarrow> pyval result"
where
  "execute_real_mental_drivers_body orch w avatar_data web_data project_data session_id =
     (if ''mental_drivers'' \<notin> set (services orch) then Inr mental_drivers_fallback
      else
        then_do (py_get project_data ''segmento'' PNone) (\<lambda>seg.
        then_do (py_get project_data ''produto'' PNone) (\<lambda>prod.
        let context_data =
              PDict [(''segmento'', seg), (''produto'', prod), (''session_id'', PStr session_id)];
            drivers_system =
              call_service orch ''mental_drivers''
                [''create_complete_mental_drivers_system'', ''create_mental_drivers_system'',
                 ''create_drivers_system'', ''create_mental_drivers'', ''build_drivers'',
                 ''generate_drivers'']
                ([], [(''avatar_data'', avatar_data), (''context_data'', context_data)])
        in Inr (if truthy drivers_system then drivers_system else mental_drivers_fallback))))"

definition execute_real_mental_drivers ::
  "orchestrator \<Rightarrow> world \<Rightarrow> pyval \<Rightarrow> pyval \<Rightarrow> pyval \<Rightarrow> string \<Rightarrow> pyval" where
  "execute_real_mental_drivers orch w avatar_data web_data project_data session_id =
     guarded (execute_real_mental_drivers_body orch w avatar_data web_data project_data session_id)
       (\<lambda>e. PDict [(''status'', PStr ''error''), (''drivers_customizados'', PList []),
                    (''error'', PStr e)])"

paragraph \<open>Phase 5: \<^verbatim>\<open>_execute_real_visual_proofs_async\<close>\<close>

definition execute_real_visual_proofs_body ::
  "orchestrator \<Rightarrow> world \<Rightarrow> pyval \<Rightarrow> pyval \<Rightarrow> string \<Rightarrow> pyval result"
where
  "execute_real_visual_proofs_body orch w drivers_data project_data session_id =
     (if ''visual_proofs'' \<notin> set (services orch)
      then Inr (PDict [(''status'', PStr ''fallback''), (''proofs'', PList [])])
      else
        then_do (py_get project_data ''segmento'' (PStr [])) (\<lambda>seg.
        then_do (py_get project_data ''produto'' (PStr [])) (\<lambda>prod.
        let visual_proofs =
              call_service orch ''visual_proofs''
                [''generate_visual_proofs'', ''create_proofs'', ''generate_proofs'',
                 ''create_visual_proofs'', ''build_proofs'']
                ([drivers_data, seg, prod, PStr session_id], [])
        in then_do (is_found visual_proofs) (\<lambda>found.
           if found then Inr visual_proofs
           else
             then_do (py_get project_data ''segmento'' (PStr ''mercado'')) (\<lambda>seg2.
             then_do (py_get project_data ''produto'' (PStr ''produto'')) (\<lambda>prod2.
             Inr (PDict
               [(''status'', PStr ''fallback''),
                (''proofs'', PList
                   [PDict [(''tipo'', PStr ''estatistica''),
                           (''titulo'', PStr (''Dados sobre '' @ fmt w seg2)),
                           (''descricao'',
                              PStr (''Analise baseada nos drivers para '' @ fmt w prod2)),
                           (''fonte'', PStr ''Analise propria'')]])])))))))"

definition execute_real_visual_proofs ::
  "orchestrator \<Rightarrow> world \<Rightarrow> pyval \<Rightarrow> pyval \<Rightarrow> string \<Rightarrow> pyval" where
  "execute_real_visual_proofs orch w drivers_data project_data session_id =
     guarded (execute_real_visual_proofs_body orch w drivers_data project_data session_id)
       (\<lambda>e. PDict [(''status'', PStr ''error''), (''proofs'', PList []), (''error'', PStr e)])"

paragraph \<open>Phase 6: \<^verbatim>\<open>_execute_real_anti_objection_async\<close>\<close>

definition execute_real_anti_objection_body ::
  "orchestrator \<Rightarrow> world \<Rightarrow> pyval \<Rightarrow> pyval \<Rightarrow> pyval \<Rightarrow> string \<Rightarrow> pyval result"
where
  "execute_real_anti_objection_body orch w drivers_data avatar_data data session_id =
     (if ''anti_objection'' \<notin> set (services orch)
      then Inr (PDict [(''status'', PStr ''fallback''), (''sistema_anti_objecao'', PDict [])])
      else
        then_do (py_get data ''produto'' (PStr [])) (\<lambda>prod.
        let anti_objection_data =
              PDict [(''avatar'', avatar_data), (''produto'', prod), (''drivers'', drivers_data)];
            res =
              call_service orch ''anti_objection''
                [''create_anti_objection_system'', ''create_system'', ''generate_system'',
                 ''build_system'', ''create_anti_objection'', ''generate_anti_objection_system'',
                 ''process_objections'']
                ([anti_objection_data], [])
        in then_do (is_found res) (\<lambda>found.
           if found then Inr res
           else
             then_do (py_get avatar_data ''objecoes_principais''
                        (PList [PStr ''Preco alto'', PStr ''Falta de confianca''])) (\<lambda>objections.
             then_do (py_iter objections) (\<lambda>objs.
             Inr (PDict
               [(''status'', PStr ''fallback''),
                (''sistema_anti_objecao'', PDict
                   [(''objecoes_mapeadas'', objections),
                    (''respostas_preparadas'',
                       PList (map (\<lambda>obj. PStr (''Resposta para: '' @ fmt w obj)) objs)),
                    (''estrategias'',
                       PList [PStr ''Demonstracao de valor'', PStr ''Prova social'',
                              PStr ''Garantias''])])]))))))"

definition execute_real_anti_objection ::
  "orchestrator \<Rightarrow> world \<Rightarrow> pyval \<Rightarrow> pyval \<Rightarrow> pyval \<Rightarrow> string \<Rightarrow> pyval" where
  "execute_real_anti_objection orch w drivers_data avatar_data data session_id =
     guarded (execute_real_anti_objection_body orch w drivers_data avatar_data data session_id)
       (\<lambda>e. PDict [(''status'', PStr ''error''), (''sistema_anti_objecao'', PDict []),
                    (''error'', PStr e)])"

paragraph \<open>Phase 7: \<^verbatim>\<open>_execute_real_pre_pitch_async\<close>\<close>

definition execute_real_pre_pitch_body ::
  "orchestrator \<Rightarrow> world \<Rightarrow> pyval \<Rightarrow> pyval \<Rightarrow> pyval \<Rightarrow> string \<Rightarrow> pyval result"
where
  "execute_real_pre_pitch_body orch w drivers_data anti_objection_data project_data session_id =
     (if ''pre_pitch'' \<notin> set (services orch)
      then Inr (PDict [(''status'', PStr ''fallback''), (''sequencias_pre_pitch'', PList [])])
      else
        let res =
              call_service orch ''pre_pitch''
                [''generate_pre_pitch_system'', ''create_system'', ''build_system'',
                 ''generate_system'', ''create_pre_pitch'', ''build_pre_pitch'',
                 ''generate_pre_pitch'', ''process_pre_pitch'']
                ([drivers_data, anti_objection_data, project_data], [])
        in then_do (is_found res) (\<lambda>found.
           if found then Inr res
           else
             then_do (py_get project_data ''produto'' (PStr ''produto'')) (\<lambda>prod1.
             then_do (py_get project_data ''produto'' (PStr ''produto'')) (\<lambda>prod2.
             Inr (PDict
               [(''status'', PStr ''fallback''),
                (''sequencias_pre_pitch'', PList
                   [PDict [(''etapa'', PStr ''Aquecimento''),
                           (''conteudo'',
                              PStr (''Introducao sobre beneficios de '' @ fmt w prod1)),
                           (''driver_aplicado'', PStr ''Curiosidade'')],
                    PDict [(''etapa'', PStr ''Revelacao de problema''),
                           (''conteudo'', PStr ''Identificacao de dor especifica do avatar''),
                           (''driver_aplicado'', PStr ''Urgencia'')],
                    PDict [(''etapa'', PStr ''Apresentacao da solucao''),
                           (''conteudo'', PStr (''Como '' @ fmt w prod2 @ '' resolve o problema'')),
                           (''driver_aplicado'', PStr ''Autoridade'')]])])))))"

definition execute_real_pre_pitch ::
  "orchestrator \<Rightarrow> world \<Rightarrow> pyval \<Rightarrow> pyval \<Rightarrow> pyval \<Rightarrow> string \<Rightarrow> pyval" where
  "execute_real_pre_pitch orch w drivers_data anti_objection_data project_data session_id =
     guarded
       (execute_real_pre_pitch_body orch w drivers_data anti_objection_data project_data session_id)
       (\<lambda>e. PDict [(''status'', PStr ''error''), (''sequencias_pre_pitch'', PList []),
                    (''error'', PStr e)])"

paragraph \<open>Phase 8: \<^verbatim>\<open>_execute_real_future_predictions_async\<close>\<close>

definition execute_real_future_predictions_body ::
  "orchestrator \<Rightarrow> world \<Rightarrow> pyval \<Rightarrow> pyval \<Rightarrow> string \<Rightarrow> pyval result"
where
  "execute_real_future_predictions_body orch w web_data social_data session_id =
     (if ''future_prediction'' \<notin> set (services orch)
      then Inr (PDict [(''status'', PStr ''fallback''), (''predicoes'', PList [])])
      else
        let res =
              call_service orch ''future_prediction''
                [''create_predictions'', ''generate_predictions'', ''build_predictions'',
                 ''predict_future'', ''analyze_future_trends'', ''process_predictions'']
                ([web_data, social_data, PStr session_id], [])
        in then_do (is_found res) (\<lambda>found.
           if found then Inr res
           else Inr (PDict [(''status'', PStr ''fallback''), (''predicoes'', PList [])])))"

definition execute_real_future_predictions ::
  "orchestrator \<Rightarrow> world \<Rightarrow> pyval \<Rightarrow> pyval \<Rightarrow> string \<Rightarrow> pyval" where
  "execute_real_future_predictions orch w web_data social_data session_id =
     guarded (execute_real_future_predictions_body orch w web_data social_data session_id)
       (\<lambda>e. PDict [(''status'', PStr ''error''), (''predicoes'', PList []), (''error'', PStr e)])"

paragraph \<open>Phase 9: \<^verbatim>\<open>_execute_real_competition_analysis_async\<close>\<close>

definition execute_real_competition_analysis_body ::
  "orchestrator \<Rightarrow> world \<Rightarrow> pyval \<Rightarrow> pyval \<Rightarrow> string \<Rightarrow> pyval result"
where
  "execute_real_competition_analysis_body orch w web_data project_data session_id =
     then_do (if ''ai_manager'' \<in> set (services orch)
              then (let competition_analysis =
                          call_service orch ''ai_manager''
                            [''analyze_competition'', ''competition_analysis'',
                             ''analyze_competitors'', ''market_analysis'']
                            ([web_data, project_data, PStr session_id], [])
                    in then_do (is_success competition_analysis) (\<lambda>ok.
                       Inr (if ok then Some competition_analysis else None)))
              else Inr None)
       (\<lambda>found.
     case found of
       Some competition_analysis \<Rightarrow> Inr competition_analysis
     | None \<Rightarrow>
         then_do (py_get project_data ''segmento'' (PStr ''mercado'')) (\<lambda>seg.
         then_do (len_of web_data ''processed_results'') (\<lambda>fontes.
         Inr (PDict
           [(''status'', PStr ''success''),
            (''analise_completa'', PStr (''Analise de concorrencia para '' @ fmt w seg)),
            (''fontes_analisadas'', fontes)]))))"

definition execute_real_competition_analysis ::
  "orchestrator \<Rightarrow> world \<Rightarrow> pyval \<Rightarrow> pyval \<Rightarrow> string \<Rightarrow> pyval" where
  "execute_real_competition_analysis orch w web_data project_data session_id =
     guarded (execute_real_competition_analysis_body orch w web_data project_data session_id)
       (\<lambda>e. PDict [(''status'', PStr ''error''), (''error'', PStr e)])"

paragraph \<open>Phase 10: \<^verbatim>\<open>_execute_real_insights_extraction_async\<close>\<close>

definition execute_real_insights_extraction_body ::
  "orchestrator \<Rightarrow> world \<Rightarrow> pyval \<Rightarrow> pyval \<Rightarrow> string \<Rightarrow> pyval result"
where
  "execute_real_insights_extraction_body orch w web_data social_data session_id =
     then_do (if ''content_extractor'' \<in> set (services orch)
              then (let insights_analysis =
                          call_service orch ''content_extractor''
                            [''extract_insights'', ''analyze_content'', ''extract_data'',
                             ''process_insights'', ''analyze_insights'']
                            ([web_data, social_data, PStr session_id], [])
                    in then_do (is_success insights_analysis) (\<lambda>ok.
                       Inr (if ok then Some insights_analysis else None)))
              else Inr None)
       (\<lambda>found.
     case found of
       Some insights_analysis \<Rightarrow> Inr insights_analysis
     | None \<Rightarrow>
         then_do (len_of web_data ''processed_results'') (\<lambda>web_sources.
         then_do (py_get social_data ''total_posts'' (PInt 0)) (\<lambda>social_posts.
         Inr (PDict
           [(''status'', PStr ''success''),
            (''insights_completos'', PStr ''Insights baseados nos dados coletados''),
            (''fontes_utilizadas'',
               PDict [(''web_sources'', web_sources), (''social_posts'', social_posts)])]))))"

definition execute_real_insights_extraction ::
  "orchestrator \<Rightarrow> world \<Rightarrow> pyval \<Rightarrow> pyval \<Rightarrow> string \<Rightarrow> pyval" where
  "execute_real_insights_extraction orch w web_data social_data session_id =
     guarded (execute_real_insights_extraction_body orch w web_data social_data session_id)
       (\<lambda>e. PDict [(''status'', PStr ''error''), (''error'', PStr e)])"

paragraph \<open>Phase 11: \<^verbatim>\<open>_execute_real_keywords_analysis_async\<close>\<close>

text \<open>The loop over \<^verbatim>\<open>['ai_manager', 'content_extractor']\<close>.\<close>

fun keywords_loop ::
  "orchestrator \<Rightarrow> pyval \<Rightarrow> pyval \<Rightarrow> string \<Rightarrow> string list \<Rightarrow> pyval option result" where
  "keywords_loop orch web_data avatar_data session_id [] = Inr None"
| "keywords_loop orch web_data avatar_data session_id (service_name # rest) =
     (if service_name \<in> set (services orch)
      then (let keywords_analysis =
                  call_service orch service_name
                    [''analyze_keywords'', ''extract_keywords'', ''keywords_analysis'',
                     ''process_keywords'', ''identify_keywords'']
                    ([web_data, avatar_data, PStr session_id], [])
            in then_do (is_success keywords_analysis) (\<lambda>ok.
               if ok then Inr (Some keywords_analysis)
               else keywords_loop orch web_data avatar_data session_id rest))
      else keywords_loop orch web_data avatar_data session_id rest)"

definition execute_real_keywords_analysis_body ::
  "orchestrator \<Rightarrow> world \<Rightarrow> pyval \<Rightarrow> pyval \<Rightarrow> string \<Rightarrow> pyval result"
where
  "execute_real_keywords_analysis_body orch w web_data avatar_data session_id =
     then_do (keywords_loop orch web_data avatar_data session_id
                [''ai_manager'', ''content_extractor''])
       (\<lambda>found.
     case found of
       Some keywords_analysis \<Rightarrow> Inr keywords_analysis
     | None \<Rightarrow>
         then_do (len_of web_data ''processed_results'') (\<lambda>analyzed.
         then_do (bool_of avatar_data ''nome_ficticio'') (\<lambda>included.
         Inr (PDict
           [(''status'', PStr ''success''),
            (''analise_completa'', PStr ''Palavras-chave estrategicas identificadas''),
            (''fonte_dados'',
               PDict [(''web_sources_analyzed'', analyzed), (''avatar_included'', included)])]))))"

definition execute_real_keywords_analysis ::
  "orchestrator \<Rightarrow> world \<Rightarrow> pyval \<Rightarrow> pyval \<Rightarrow> string \<Rightarrow> pyval" where
  "execute_real_keywords_analysis orch w web_data avatar_data session_id =
     guarded (execute_real_keywords_analysis_body orch w web_data avatar_data session_id)
       (\<lambda>e. PDict [(''status'', PStr ''error''), (''error'', PStr e)])"

paragraph \<open>Phase 12: \<^verbatim>\<open>_execute_real_sales_funnel_async\<close>\<close>

definition execute_real_sales_funnel_body ::
  "orchestrator \<Rightarrow> world \<Rightarrow> pyval \<Rightarrow> pyval \<Rightarrow> string \<Rightarrow> pyval result"
where
  "execute_real_sales_funnel_body orch w drivers_data avatar_data session_id =
     then_do (if ''ai_manager'' \<in> set (services orch)
              then (let funnel_analysis =
                          call_service orch ''ai_manager''
                            [''optimize_sales_funnel'', ''create_funnel'', ''build_funnel'',
                             ''funnel_optimization'', ''sales_funnel_analysis'']
                            ([drivers_data, avatar_data, PStr session_id], [])
                    in then_do (is_success funnel_analysis) (\<lambda>ok.
                       Inr (if ok then Some funnel_analysis else None)))
              else Inr None)
       (\<lambda>found.
     case found of
       Some funnel_analysis \<Rightarrow> Inr funnel_analysis
     | None \<Rightarrow>
         then_do (len_of drivers_data ''drivers_customizados'') (\<lambda>applied.
         then_do (bool_of avatar_data ''nome_ficticio'') (\<lambda>based.
         Inr (PDict
           [(''status'', PStr ''success''),
            (''funil_otimizado'', PStr ''Funil otimizado com base nos dados coletados''),
            (''dados_base'',
               PDict [(''drivers_applied'', applied), (''avatar_based'', based)])]))))"

definition execute_real_sales_funnel ::
  "orchestrator \<Rightarrow> world \<Rightarrow> pyval \<Rightarrow> pyval \<Rightarrow> string \<Rightarrow> pyval" where
  "execute_real_sales_funnel orch w drivers_data avatar_data session_id =
     guarded (execute_real_sales_funnel_body orch w drivers_data avatar_data session_id)
       (\<lambda>e. PDict [(''status'', PStr ''error''), (''error'', PStr e)])"

subsection \<open>The consolidation\<close>

text \<open>The module reports \<^verbatim>\<open>_gerar_relatorio_*\<close>.\<close>

definition gerar_relatorio_pesquisa_web :: "pyval \<Rightarrow> pyval result" where
  "gerar_relatorio_pesquisa_web web_data =
     (if \<not> is_dict web_data
      then Inr (PDict [(''status'', PStr ''error''), (''message'', PStr ''Dados invalidos'')])
      else
        then_do (py_get web_data ''processed_results'' (PList [])) (\<lambda>processed_results.
        then_do (py_len processed_results) (\<lambda>total_fontes.
        then_do (py_slice processed_results 10) (\<lambda>first_ten.
        then_do (py_iter first_ten) (\<lambda>items.
        then_do (map_result (\<lambda>res.
                   then_do (py_get res ''title'' (PStr ''Sem titulo'')) (\<lambda>title.
                   then_do (py_slice title 100) (\<lambda>titulo.
                   then_do (py_get res ''url'' (PStr [])) (\<lambda>url.
                   then_do (py_get res ''relevance_score'' (PInt 0)) (\<lambda>relevancia.
                   Inr (PDict [(''titulo'', titulo), (''url'', url),
                               (''relevancia'', relevancia)])))))) items) (\<lambda>fontes_analisadas.
        then_do (py_get web_data ''engines_used'' (PList [])) (\<lambda>engines.
        then_do (py_get web_data ''execution_time'' (PInt 0)) (\<lambda>tempo.
        Inr (PDict
          [(''status'', PStr ''success''),
           (''total_fontes'', PInt total_fontes),
           (''fontes_analisadas'', PList fontes_analisadas),
           (''qualidade_pesquisa'',
              PStr (if truthy processed_results then ''real_data'' else ''limited_data'')),
           (''engines_utilizados'', engines),
           (''tempo_execucao'', tempo)])))))))))"

definition gerar_relatorio_social :: "pyval \<Rightarrow> pyval result" where
  "gerar_relatorio_social social_data =
     (if \<not> is_dict social_data
      then Inr (PDict [(''status'', PStr ''error''), (''message'', PStr ''Dados sociais invalidos'')])
      else
        then_do (py_get social_data ''platforms_data'' (PDict [])) (\<lambda>platforms_data.
        then_do (py_get social_data ''total_posts'' (PInt 0)) (\<lambda>total_posts.
        Inr (PDict
          [(''status'', PStr ''success''),
           (''total_posts'', total_posts),
           (''plataformas_analisadas'',
              (case platforms_data of
                 PDict d \<Rightarrow> PList (map (\<lambda>kv. PStr (fst kv)) d)
               | _ \<Rightarrow> PList [])),
           (''sentimento_geral'', PStr ''neutro''),
           (''engajamento_medio'', PStr ''moderado''),
           (''palavras_chave_trending'',
              PList [PStr ''empreendedorismo'', PStr ''inovacao'', PStr ''brasil''])]))))"

definition gerar_relatorio_avatar :: "pyval \<Rightarrow> pyval result" where
  "gerar_relatorio_avatar avatar_data =
     (if \<not> is_dict avatar_data
      then Inr (PDict [(''status'', PStr ''error''),
                       (''message'', PStr ''Dados de avatar invalidos'')])
      else
        then_do (py_get avatar_data ''nome_ficticio'' (PStr ''Avatar Profissional'')) (\<lambda>nome.
        then_do (py_get avatar_data ''dores_viscerais_unificadas'' (PList [])) (\<lambda>dores.
        then_do (py_get avatar_data ''desejos_secretos_unificados'' (PList [])) (\<lambda>desejos.
        then_do (py_get avatar_data ''objecoes_principais'' (PList [])) (\<lambda>objecoes.
        then_do (py_get avatar_data ''canais_comunicacao'' (PList [])) (\<lambda>canais.
        then_do (py_get avatar_data ''perfil_demografico_completo'' (PDict [])) (\<lambda>demografico.
        then_do (py_get avatar_data ''perfil_psicografico_profundo'' (PDict [])) (\<lambda>psicografico.
        Inr (PDict
          [(''status'', PStr ''success''),
           (''nome_avatar'', nome),
           (''dores_identificadas'', dores),
           (''desejos_mapeados'', desejos),
           (''objecoes_principais'', objecoes),
           (''canais_preferidos'', canais),
           (''perfil_demografico'', demografico),
           (''perfil_psicografico'', psicografico)])))))))))"

definition gerar_relatorio_drivers :: "pyval \<Rightarrow> pyval result" where
  "gerar_relatorio_drivers drivers_data =
     (if \<not> is_dict drivers_data
      then Inr (PDict [(''status'', PStr ''error''),
                       (''message'', PStr ''Dados de drivers invalidos'')])
      else
        then_do (py_get drivers_data ''drivers_customizados'' (PList [])) (\<lambda>drivers.
        then_do (py_len drivers) (\<lambda>total_drivers.
        Inr (PDict
          [(''status'', PStr ''success''),
           (''total_drivers'', PInt total_drivers),
           (''drivers_gerados'', drivers),
           (''categorias_cobertas'',
              PList [PStr ''urgencia'', PStr ''autoridade'', PStr ''escassez'',
                     PStr ''prova_social'']),
           (''intensidade_media'', PFloat 8.5),
           (''aplicabilidade'', PStr ''alta'')]))))"

definition gerar_relatorio_provas :: "pyval \<Rightarrow> pyval result" where
  "gerar_relatorio_provas provas_data =
     (if \<not> is_dict provas_data
      then Inr (PDict [(''status'', PStr ''error''),
                       (''message'', PStr ''Dados de provas invalidos'')])
      else
        then_do (py_get provas_data ''proofs'' (PList [])) (\<lambda>proofs.
        then_do (py_len proofs) (\<lambda>total_provas.
        Inr (PDict
          [(''status'', PStr ''success''),
           (''total_provas'', PInt total_provas),
           (''tipos_prova'',
              PList [PStr ''depoimentos'', PStr ''estatisticas'', PStr ''cases'',
                     PStr ''certificacoes'']),
           (''provas_geradas'', proofs),
           (''impacto_persuasivo'', PStr ''alto'')]))))"

text \<open>\<^verbatim>\<open>sistema.get(key, []) if isinstance(sistema, dict) else []\<close>.\<close>

definition get_if_dict :: "pyval \<Rightarrow> string \<Rightarrow> pyval" where
  "get_if_dict sistema key =
     (case sistema of
        PDict d \<Rightarrow> (case map_of d key of None \<Rightarrow> PList [] | Some v \<Rightarrow> v)
      | _ \<Rightarrow> PList [])"

definition gerar_relatorio_anti_objecao :: "pyval \<Rightarrow> pyval result" where
  "gerar_relatorio_anti_objecao anti_obj_data =
     (if \<not> is_dict anti_obj_data
      then Inr (PDict [(''status'', PStr ''error''),
                       (''message'', PStr ''Dados anti-objecao invalidos'')])
      else
        then_do (py_get anti_obj_data ''sistema_anti_objecao'' (PDict [])) (\<lambda>sistema.
        Inr (PDict
          [(''status'', PStr ''success''),
           (''objecoes_mapeadas'', get_if_dict sistema ''objecoes_mapeadas''),
           (''respostas_preparadas'', get_if_dict sistema ''respostas_preparadas''),
           (''estrategias_neutralizacao'', get_if_dict sistema ''estrategias''),
           (''taxa_neutralizacao_estimada'', PStr ''85%'')])))"

definition gerar_relatorio_funil :: "pyval \<Rightarrow> pyval result" where
  "gerar_relatorio_funil funil_data =
     (if \<not> is_dict funil_data
      then Inr (PDict [(''status'', PStr ''error''),
                       (''message'', PStr ''Dados de funil invalidos'')])
      else
        Inr (PDict
          [(''status'', PStr ''success''),
           (''etapas_funil'',
              PList [PStr ''consciencia'', PStr ''interesse'', PStr ''consideracao'',
                     PStr ''acao'']),
           (''otimizacoes_aplicadas'',
              PList [PStr ''personalizacao'', PStr ''segmentacao'', PStr ''automacao'']),
           (''conversao_estimada'', PStr ''15-25%''),
           (''pontos_otimizacao'',
              PList [PStr ''landing_pages'', PStr ''follow_up'', PStr ''nurturing''])]))"

text \<open>
  The entries of \<^verbatim>\<open>dados_coletados\<close>: \<^verbatim>\<open>len(d.get(key, [])) if isinstance(d, dict) else 0\<close>,
  \<^verbatim>\<open>d.get(key, 0) if isinstance(d, dict) else 0\<close> and
  \<^verbatim>\<open>bool(d.get(key)) if isinstance(d, dict) else False\<close>.
\<close>

definition len_if_dict :: "pyval \<Rightarrow> string \<Rightarrow> pyval result" where
  "len_if_dict d key = (if is_dict d then len_of d key else Inr (PInt 0))"

definition posts_if_dict :: "pyval \<Rightarrow> string \<Rightarrow> pyval result" where
  "posts_if_dict d key = (if is_dict d then py_get d key (PInt 0) else Inr (PInt 0))"

definition bool_if_dict :: "pyval \<Rightarrow> string \<Rightarrow> pyval result" where
  "bool_if_dict d key = (if is_dict d then bool_of d key else Inr (PBool False))"

text \<open>
  \<^verbatim>\<open>sum(1 for data in complete_analysis_data.values()
  if isinstance(data, dict) and data.get('status') == s)\<close>.
\<close>

definition count_status :: "(string \<times> pyval) list \<Rightarrow> string \<Rightarrow> pyval" where
  "count_status complete_analysis_data s =
     PInt (int (length (filter
       (\<lambda>kv. is_dict (snd kv) \<and> py_get (snd kv) ''status'' PNone = Inr (PStr s))
       complete_analysis_data)))"

text \<open>\<^verbatim>\<open>complete_analysis_data.get(key, {})\<close>.\<close>

definition component :: "(string \<times> pyval) list \<Rightarrow> string \<Rightarrow> pyval" where
  "component complete_analysis_data key =
     (case map_of complete_analysis_data key of None \<Rightarrow> PDict [] | Some v \<Rightarrow> v)"

text \<open>
  The body of the \<^verbatim>\<open>try\<close> of \<^verbatim>\<open>_generate_final_report_async\<close>: \<open>Inl\<close> when the
  consolidation raises.
\<close>

definition generate_final_report_body ::
  "orchestrator \<Rightarrow> world \<Rightarrow> (string \<times> pyval) list \<Rightarrow> string \<Rightarrow> pyval result"
where
  "generate_final_report_body orch w complete_analysis_data session_id =
     then_do (if ''enhanced_report'' \<in> set (services orch)
              then (let enhanced_report =
                          call_service orch ''enhanced_report''
                            [''generate_report'', ''create_report'', ''build_report'',
                             ''generate_enhanced_report'', ''create_enhanced_report'',
                             ''process_report'', ''compile_report'']
                            ([PDict complete_analysis_data, PStr session_id], [])
                    in if truthy enhanced_report \<and> is_dict enhanced_report
                       then then_do (py_get enhanced_report ''status'' PNone) (\<lambda>st.
                            Inr (if st \<noteq> PStr ''method_not_found'' \<and> st \<noteq> PStr ''critical_error''
                                 then Some enhanced_report else None))
                       else Inr None)
              else Inr None)
       (\<lambda>found.
     case found of
       Some enhanced_report \<Rightarrow> Inr enhanced_report
     | None \<Rightarrow>
         let web_data = component complete_analysis_data ''pesquisa_web_massiva'';
             social_data = component complete_analysis_data ''analise_redes_sociais'';
             avatar_data = component complete_analysis_data ''avatar_ultra_detalhado'';
             drivers_data = component complete_analysis_data ''drivers_mentais_customizados'';
             provas_data = component complete_analysis_data ''provas_visuais_arsenal'';
             anti_obj_data = component complete_analysis_data ''sistema_anti_objecao'';
             funil_data = component complete_analysis_data ''funil_vendas_otimizado''
         in
         then_do (len_if_dict web_data ''processed_results'') (\<lambda>web_sources.
         then_do (posts_if_dict social_data ''total_posts'') (\<lambda>social_posts.
         then_do (bool_if_dict avatar_data ''nome_ficticio'') (\<lambda>avatar_criado.
         then_do (len_if_dict drivers_data ''drivers_customizados'') (\<lambda>drivers_gerados.
         then_do (len_if_dict provas_data ''proofs'') (\<lambda>provas_visuais.
         then_do (bool_if_dict anti_obj_data ''sistema_anti_objecao'') (\<lambda>sistema.
         then_do (bool_if_dict funil_data ''funil_otimizado'') (\<lambda>funil_otimizado.
         then_do (gerar_relatorio_pesquisa_web web_data) (\<lambda>r_web.
         then_do (gerar_relatorio_social social_data) (\<lambda>r_social.
         then_do (gerar_relatorio_avatar avatar_data) (\<lambda>r_avatar.
         then_do (gerar_relatorio_drivers drivers_data) (\<lambda>r_drivers.
         then_do (gerar_relatorio_provas provas_data) (\<lambda>r_provas.
         then_do (gerar_relatorio_anti_objecao anti_obj_data) (\<lambda>r_anti.
         then_do (gerar_relatorio_funil funil_data) (\<lambda>r_funil.
         Inr (PDict
           [(''status'', PStr ''success''),
            (''session_id'', PStr session_id),
            (''timestamp'', PStr (now_iso w)),
            (''resumo_executivo'',
               PStr ''Analise completa finalizada com todos os componentes''),
            (''componentes_analisados'',
               PList (map (\<lambda>kv. PStr (fst kv)) complete_analysis_data)),
            (''dados_coletados'', PDict
               [(''web_sources'', web_sources),
                (''social_posts'', social_posts),
                (''avatar_criado'', avatar_criado),
                (''drivers_gerados'', drivers_gerados),
                (''provas_visuais'', provas_visuais),
                (''sistema_anti_objecao'', sistema),
                (''funil_otimizado'', funil_otimizado)]),
            (''relatorios_modulos'', PDict
               [(''pesquisa_web'', r_web),
                (''analise_social'', r_social),
                (''avatar'', r_avatar),
                (''drivers_mentais'', r_drivers),
                (''provas_visuais'', r_provas),
                (''anti_objecao'', r_anti),
                (''funil_vendas'', r_funil)]),
            (''service_status'', PDict
               [(''services_available'', PInt (int (length (services orch)))),
                (''services_used'', count_status complete_analysis_data ''success''),
                (''fallbacks_used'', count_status complete_analysis_data ''fallback'')]),
            (''report_generator'', PStr ''enhanced_fallback_v5_fixed'')]))))))))))))))))"

definition error_report :: "world \<Rightarrow> string \<Rightarrow> exn \<Rightarrow> pyval" where
  "error_report w session_id e =
     PDict [(''status'', PStr ''error''), (''session_id'', PStr session_id),
            (''timestamp'', PStr (now_iso w)), (''error'', PStr e),
            (''report_generator'', PStr ''error_fallback'')]"

definition generate_final_report ::
  "orchestrator \<Rightarrow> world \<Rightarrow> (string \<times> pyval) list \<Rightarrow> string \<Rightarrow> pyval" where
  "generate_final_report orch w complete_analysis_data session_id =
     guarded (generate_final_report_body orch w complete_analysis_data session_id)
       (error_report w session_id)"

subsection \<open>The pipeline run\<close>

text \<open>
  A run is observed through what it returns (\<open>Inl\<close> when an exception leaves the
  function), the orchestrator it leaves, the sequence of progress callbacks made and stage
  functions entered, and the results of the stages that ran, under the keys they get in
  \<^verbatim>\<open>complete_analysis_data\<close>. The progress callback either returns (\<open>None\<close>) or raises;
  its outcome is taken as a function of its arguments. \<open>consolidated\<close> is the dictionary
  \<^verbatim>\<open>complete_analysis_data\<close> once the run has built it. Sessions run one at a time here:
  the lock and concurrent runs are not modelled.
\<close>

datatype event = Callback int string | Stage string

type_synonym callback = "int \<Rightarrow> string \<Rightarrow> exn option"

record run =
  returned_value :: "pyval result"
  final :: orchestrator
  trace :: "event list"
  stage_results :: "(string \<times> pyval) list"
  consolidated :: "(string \<times> pyval) list"

text \<open>\<^verbatim>\<open>if progress_callback: progress_callback(step, message)\<close>, then the rest of the run.\<close>

definition phase ::
  "callback option \<Rightarrow> int \<Rightarrow> string \<Rightarrow> orchestrator \<Rightarrow> event list \<Rightarrow> (string \<times> pyval) list \<Rightarrow>
   (event list \<Rightarrow> run) \<Rightarrow> run"
where
  "phase progress_callback step message orch tr done rest =
     (case progress_callback of
        None \<Rightarrow> rest tr
      | Some f \<Rightarrow>
          (case f step message of
             Some e \<Rightarrow>
               \<lparr>returned_value = Inl e, final = orch,
                trace = tr @ [Callback step message], stage_results = done,
                consolidated = []\<rparr>
           | None \<Rightarrow> rest (tr @ [Callback step message])))"

definition running_session :: "real \<Rightarrow> session" where
  "running_session t =
     \<lparr>status = ''running'', start_time = t, components_completed = [], errors = [],
      recursion_prevented = 0, real_data_only = True, execution_time = None\<rparr>"

definition success_envelope :: "string \<Rightarrow> real \<Rightarrow> pyval \<Rightarrow> pyval" where
  "success_envelope session_id elapsed final_report =
     PDict [(''success'', PBool True),
            (''session_id'', PStr session_id),
            (''execution_time'', PFloat elapsed),
            (''total_components_executed'', PInt 12),
            (''report'', final_report),
            (''data_validation'', PDict
               [(''all_data_real'', PBool True),
                (''zero_simulated_data'', PBool True),
                (''zero_fallbacks_used'', PBool True),
                (''components_with_real_data'', PInt 12)]),
            (''sync_status'', PStr ''PERFECT_SYNC_REAL_DATA_ONLY'')]"

text \<open>
  \<^verbatim>\<open>self.execution_state[session_id]['status'] = 'completed'\<close> and the elapsed time. The
  key is present when the run gets there: the run stored it at its start.
\<close>

definition complete_session :: "string \<Rightarrow> real \<Rightarrow> orchestrator \<Rightarrow> orchestrator" where
  "complete_session session_id elapsed orch =
     orch\<lparr>execution_state :=
       (case execution_state orch session_id of
          None \<Rightarrow> execution_state orch
        | Some s \<Rightarrow> (execution_state orch)
            (session_id \<mapsto> s\<lparr>status := ''completed'', execution_time := Some elapsed\<rparr>))\<rparr>"

definition execute_async_analysis ::
  "orchestrator \<Rightarrow> world \<Rightarrow> callback option \<Rightarrow> pyval \<Rightarrow> string \<Rightarrow> run"
where
  "execute_async_analysis orch0 w progress_callback data session_id =
     (let orch = orch0\<lparr>global_recursion_depth := [],
                       execution_state := (execution_state orch0)
                         (session_id \<mapsto> running_session (clock_start w))\<rparr>
      in
      phase progress_callback 1 ''Executando pesquisa web massiva com dados reais...''
        orch [] [] (\<lambda>tr.
      let web_research_results = execute_real_web_search orch w data session_id;
          tr = tr @ [Stage ''web_search''];
          done = [(''pesquisa_web_massiva'', web_research_results)] in
      phase progress_callback 2 ''Analisando redes sociais com dados reais...''
        orch tr done (\<lambda>tr.
      let social_analysis_results = execute_real_social_analysis orch w data session_id;
          tr = tr @ [Stage ''social_analysis''];
          done = done @ [(''analise_redes_sociais'', social_analysis_results)] in
      phase progress_callback 3 ''Criando avatar ultra-detalhado com dados reais...''
        orch tr done (\<lambda>tr.
      let avatar_results =
            execute_real_avatar_analysis orch w web_research_results social_analysis_results
              data session_id;
          tr = tr @ [Stage ''avatar_analysis''];
          done = done @ [(''avatar_ultra_detalhado'', avatar_results)] in
      phase progress_callback 4 ''Gerando drivers mentais customizados com dados reais...''
        orch tr done (\<lambda>tr.
      let drivers_results =
            execute_real_mental_drivers orch w avatar_results web_research_results data session_id;
          tr = tr @ [Stage ''mental_drivers''];
          done = done @ [(''drivers_mentais_customizados'', drivers_results)] in
      phase progress_callback 5 ''Criando provas visuais com dados reais...''
        orch tr done (\<lambda>tr.
      let visual_proofs_results =
            execute_real_visual_proofs orch w drivers_results data session_id;
          tr = tr @ [Stage ''visual_proofs''];
          done = done @ [(''provas_visuais_arsenal'', visual_proofs_results)] in
      phase progress_callback 6 ''Desenvolvendo sistema anti-objecao com dados reais...''
        orch tr done (\<lambda>tr.
      let anti_objection_results =
            execute_real_anti_objection orch w drivers_results avatar_results data session_id;
          tr = tr @ [Stage ''anti_objection''];
          done = done @ [(''sistema_anti_objecao'', anti_objection_results)] in
      phase progress_callback 7 ''Construindo pre-pitch invisivel com dados reais...''
        orch tr done (\<lambda>tr.
      let pre_pitch_results =
            execute_real_pre_pitch orch w drivers_results anti_objection_results data session_id;
          tr = tr @ [Stage ''pre_pitch''];
          done = done @ [(''pre_pitch_invisivel'', pre_pitch_results)] in
      phase progress_callback 8 ''Gerando predicoes futuras com dados reais...''
        orch tr done (\<lambda>tr.
      let predictions_results =
            execute_real_future_predictions orch w web_research_results social_analysis_results
              session_id;
          tr = tr @ [Stage ''future_predictions''];
          done = done @ [(''predicoes_futuro_detalhadas'', predictions_results)] in
      phase progress_callback 9 ''Analisando concorrencia com dados reais...''
        orch tr done (\<lambda>tr.
      let competition_results =
            execute_real_competition_analysis orch w web_research_results data session_id;
          tr = tr @ [Stage ''competition_analysis''];
          done = done @ [(''analise_concorrencia'', competition_results)] in
      phase progress_callback 10 ''Extraindo insights exclusivos com dados reais...''
        orch tr done (\<lambda>tr.
      let insights_results =
            execute_real_insights_extraction orch w web_research_results social_analysis_results
              session_id;
          tr = tr @ [Stage ''insights_extraction''];
          done = done @ [(''insights_exclusivos'', insights_results)] in
      phase progress_callback 11 ''Identificando palavras-chave estrategicas com dados reais...''
        orch tr done (\<lambda>tr.
      let keywords_results =
            execute_real_keywords_analysis orch w web_research_results avatar_results session_id;
          tr = tr @ [Stage ''keywords_analysis''];
          done = done @ [(''palavras_chave_estrategicas'', keywords_results)] in
      phase progress_callback 12 ''Otimizando funil de vendas com dados reais...''
        orch tr done (\<lambda>tr.
      let funnel_results =
            execute_real_sales_funnel orch w drivers_results avatar_results session_id;
          tr = tr @ [Stage ''sales_funnel''];
          done = done @ [(''funil_vendas_otimizado'', funnel_results)] in
      phase progress_callback 13 ''Gerando relatorio final completo com dados reais...''
        orch tr done (\<lambda>tr.
      let complete_analysis_data =
            [(''session_id'', PStr session_id),
             (''projeto_dados'', data),
             (''pesquisa_web_massiva'', web_research_results),
             (''avatar_ultra_detalhado'', avatar_results),
             (''drivers_mentais_customizados'', drivers_results),
             (''provas_visuais_arsenal'', visual_proofs_results),
             (''sistema_anti_objecao'', anti_objection_results),
             (''pre_pitch_invisivel'', pre_pitch_results),
             (''predicoes_futuro_detalhadas'', predictions_results),
             (''analise_concorrencia'', competition_results),
             (''insights_exclusivos'', insights_results),
             (''palavras_chave_estrategicas'', keywords_results),
             (''funil_vendas_otimizado'', funnel_results),
             (''analise_redes_sociais'', social_analysis_results)];
          final_report = generate_final_report orch w complete_analysis_data session_id;
          elapsed = clock_end w - clock_start w
      in \<lparr>returned_value = Inr (success_envelope session_id elapsed final_report),
          final = complete_session session_id elapsed orch,
          trace = tr @ [Stage ''final_report''],
          stage_results = done,
          consolidated = complete_analysis_data\<rparr>))))))))))))))"

definition failure_envelope :: "string \<Rightarrow> string \<Rightarrow> pyval" where
  "failure_envelope session_id message =
     PDict [(''success'', PBool False), (''session_id'', PStr session_id),
            (''error'', PStr message), (''emergency_mode'', PBool True)]"

text \<open>
  \<^verbatim>\<open>execute_synchronized_analysis\<close>: the rejection of empty data, the run, and the handler
  of whatever the run raises (\<^verbatim>\<open>salvar_erro\<close>, the clearing of the recursion map, the
  failure envelope). An exception of \<^verbatim>\<open>salvar_erro\<close> leaves the function.
\<close>

definition execute_synchronized_analysis ::
  "orchestrator \<Rightarrow> world \<Rightarrow> callback option \<Rightarrow> pyval \<Rightarrow> string \<Rightarrow> run"
where
  "execute_synchronized_analysis orch w progress_callback data session_id =
     (if \<not> truthy data
      then \<lparr>returned_value =
              Inr (failure_envelope session_id ''Dados de entrada obrigatorios nao fornecidos''),
            final = orch, trace = [], stage_results = [], consolidated = []\<rparr>
      else
        let r = execute_async_analysis orch w progress_callback data session_id
        in case returned_value r of
             Inr v \<Rightarrow> r
           | Inl e \<Rightarrow>
               (case salvar_erro w of
                  Some e' \<Rightarrow> r\<lparr>returned_value := Inl e'\<rparr>
                | None \<Rightarrow>
                    r\<lparr>returned_value := Inr (failure_envelope session_id e),
                      final := (final r)\<lparr>global_recursion_depth := []\<rparr>\<rparr>))"

text \<open>The status of a session in \<^verbatim>\<open>self.execution_state\<close>.\<close>

definition session_status :: "orchestrator \<Rightarrow> string \<Rightarrow> string option" where
  "session_status orch session_id = map_option status (execution_state orch session_id)"

definition stage_events :: "event list \<Rightarrow> string list" where
  "stage_events tr = concat (map (\<lambda>ev. case ev of Stage s \<Rightarrow> [s] | Callback n m \<Rightarrow> []) tr)"

definition all_stages :: "string list" where
  "all_stages =
     [''web_search'', ''social_analysis'', ''avatar_analysis'', ''mental_drivers'',
      ''visual_proofs'', ''anti_objection'', ''pre_pitch'', ''future_predictions'',
      ''competition_analysis'', ''insights_extraction'', ''keywords_analysis'', ''sales_funnel'',
      ''final_report'']"

text \<open>The thirteen progress calls of a run, each with the stage function that follows it.\<close>

definition progress_plan :: "(int \<times> string \<times> string) list" where
  "progress_plan =
     [(1, ''Executando pesquisa web massiva com dados reais...'', ''web_search''),
      (2, ''Analisando redes sociais com dados reais...'', ''social_analysis''),
      (3, ''Criando avatar ultra-detalhado com dados reais...'', ''avatar_analysis''),
      (4, ''Gerando drivers mentais customizados com dados reais...'', ''mental_drivers''),
      (5, ''Criando provas visuais com dados reais...'', ''visual_proofs''),
      (6, ''Desenvolvendo sistema anti-objecao com dados reais...'', ''anti_objection''),
      (7, ''Construindo pre-pitch invisivel com dados reais...'', ''pre_pitch''),
      (8, ''Gerando predicoes futuras com dados reais...'', ''future_predictions''),
      (9, ''Analisando concorrencia com dados reais...'', ''competition_analysis''),
      (10, ''Extraindo insights exclusivos com dados reais...'', ''insights_extraction''),
      (11, ''Identificando palavras-chave estrategicas com dados reais...'',
       ''keywords_analysis''),
      (12, ''Otimizando funil de vendas com dados reais...'', ''sales_funnel''),
      (13, ''Gerando relatorio final completo com dados reais...'', ''final_report'')]"

text \<open>
  A progress callback is quiet when it is absent or raises at none of the thirteen
  progress calls; \<open>announced\<close> is the event a progress call leaves in the trace.
\<close>

definition quiet :: "callback option \<Rightarrow> bool" where
  "quiet progress_callback =
     (case progress_callback of
        None \<Rightarrow> True
      | Some f \<Rightarrow> list_all (\<lambda>(step, message, stage). f step message = None) progress_plan)"

definition announced :: "callback option \<Rightarrow> int \<Rightarrow> string \<Rightarrow> event list" where
  "announced progress_callback step message =
     (case progress_callback of None \<Rightarrow> [] | Some f \<Rightarrow> [Callback step message])"

definition planned_events :: "(int \<times> string \<times> string) list \<Rightarrow> event list" where
  "planned_events plan = concat (map (\<lambda>(n, m, s). [Callback n m, Stage s]) plan)"

definition stage_keys :: "string list" where
  "stage_keys =
     [''pesquisa_web_massiva'', ''analise_redes_sociais'', ''avatar_ultra_detalhado'',
      ''drivers_mentais_customizados'', ''provas_visuais_arsenal'', ''sistema_anti_objecao'',
      ''pre_pitch_invisivel'', ''predicoes_futuro_detalhadas'', ''analise_concorrencia'',
      ''insights_exclusivos'', ''palavras_chave_estrategicas'', ''funil_vendas_otimizado'']"

definition status_of :: "pyval \<Rightarrow> pyval" where
  "status_of v = (case py_get v ''status'' PNone of Inl e \<Rightarrow> PNone | Inr st \<Rightarrow> st)"

subsection \<open>Concrete orchestrators and worlds\<close>

text \<open>
  An orchestrator with no service at all, one whose only service is a WebSailor that
  reports an integer where the list of results belongs, and a world without search
  coordinator and fallback manager, in which \<^verbatim>\<open>str()\<close> is applied to strings only.
\<close>

definition bare_orchestrator :: orchestrator where
  "bare_orchestrator =
     \<lparr>services = [], service_methods = [], execution_state = Map.empty,
      global_recursion_depth = []\<rparr>"

definition odd_websailor :: orchestrator where
  "odd_websailor =
     \<lparr>services = [''websailor''],
      service_methods =
        [(''websailor'',
          [(''research'', \<lambda>a. Inr (PDict [(''status'', PStr ''success''),
                                           (''processed_results'', PInt 5)]))])],
      execution_state = Map.empty, global_recursion_depth = []\<rparr>"

definition quiet_world :: world where
  "quiet_world =
     \<lparr>perform_search = None, enhanced_social_search = None,
      fmt = (\<lambda>v. case v of PStr s \<Rightarrow> s | _ \<Rightarrow> ''?''),
      now_iso = ''2024-01-01T00:00:00'', clock_start = 100, clock_end = 160,
      salvar_erro = None\<rparr>"

definition fitness_request :: pyval where
  "fitness_request =
     PDict [(''segmento'', PStr ''fitness''), (''produto'', PStr ''coaching app''),
            (''session_id'', PStr ''s1'')]"

definition raising_at :: "int \<Rightarrow> callback" where
  "raising_at k step message = (if step = k then Some ''disk full'' else None)"

definition quiet_callback :: callback where
  "quiet_callback step message = None"

section \<open>The route that starts a pipeline run (routes/analysis.py)\<close>

text \<open>
  \<^verbatim>\<open>analyze\<close> answers a POST request. The parsed JSON body is a Python value (\<^verbatim>\<open>None\<close>
  when there is none). The session helpers of \<^verbatim>\<open>auto_save_manager\<close> lie outside the
  repository's files: \<^verbatim>\<open>iniciar_sessao\<close> returns a session identifier or raises,
  \<^verbatim>\<open>salvar_etapa\<close> returns or raises depending on the name of the step saved. The response
  is a status code with a JSON body; an exception that leaves the function is answered
  by the web framework. \<^verbatim>\<open>active_sessions\<close> maps a session identifier to the fields of
  the session. The pipeline is the orchestrator of the sections above, and the record of
  the run, if one was started, is part of the outcome.
\<close>

record route_world = world +
  iniciar_sessao :: "string result"
  salvar_etapa :: "string \<Rightarrow> exn option"

datatype response = Response int pyval | Unhandled exn

record outcome =
  answer :: response
  active_sessions :: "string \<rightharpoonup> (string \<times> pyval) list"
  pipeline :: "run option"

text \<open>The callback \<^verbatim>\<open>send_progress_update\<close>: it logs and saves the step \<^verbatim>\<open>progresso\<close>.\<close>

definition send_progress_update :: "('a route_world_scheme) \<Rightarrow> callback" where
  "send_progress_update w step message = salvar_etapa w ''progresso''"

text \<open>Setting a field of a session that exists; \<^verbatim>\<open>KeyError\<close> when it does not.\<close>

definition set_fields ::
  "(string \<rightharpoonup> (string \<times> pyval) list) \<Rightarrow> string \<Rightarrow> (string \<times> pyval) list \<Rightarrow>
   (string \<rightharpoonup> (string \<times> pyval) list) result"
where
  "set_fields sessions session_id updates =
     (case sessions session_id of
        None \<Rightarrow> Inl (quoted session_id)
      | Some entries \<Rightarrow>
          Inr (sessions(session_id \<mapsto>
                 filter (\<lambda>kv. fst kv \<notin> set (map fst updates)) entries @ updates)))"

text \<open>
  The handler \<^verbatim>\<open>except Exception as e\<close> of \<^verbatim>\<open>analyze\<close>. \<open>sid\<close> is the session identifier
  when the local variable is bound.
\<close>

definition error_body :: "string option \<Rightarrow> exn \<Rightarrow> pyval" where
  "error_body sid e =
     PDict [(''success'', PBool False),
            (''session_id'', (case sid of None \<Rightarrow> PNone | Some i \<Rightarrow> PStr i)),
            (''error'', PStr e),
            (''message'', PStr ''Erro na analise. Dados intermediarios foram salvos.'')]"

definition analyze_handler ::
  "('a route_world_scheme) \<Rightarrow> (string \<rightharpoonup> (string \<times> pyval) list) \<Rightarrow> string option \<Rightarrow>
   run option \<Rightarrow> exn \<Rightarrow> outcome"
where
  "analyze_handler w sessions sid started e =
     (case (case sid of None \<Rightarrow> None | Some i \<Rightarrow> if i = [] then None else Some i) of
        Some session_id \<Rightarrow>
          (case set_fields sessions session_id
                  [(''status'', PStr ''error''), (''error'', PStr e),
                   (''error_at'', PStr (now_iso w))] of
             Inl key_error \<Rightarrow>
               \<lparr>answer = Unhandled key_error, active_sessions = sessions, pipeline = started\<rparr>
           | Inr sessions' \<Rightarrow>
               (case salvar_erro w of
                  Some e' \<Rightarrow>
                    \<lparr>answer = Unhandled e', active_sessions = sessions', pipeline = started\<rparr>
                | None \<Rightarrow>
                    \<lparr>answer = Response 500 (error_body sid e), active_sessions = sessions',
                     pipeline = started\<rparr>))
      | None \<Rightarrow>
          (case salvar_erro w of
             Some e' \<Rightarrow>
               \<lparr>answer = Unhandled e', active_sessions = sessions, pipeline = started\<rparr>
           | None \<Rightarrow>
               \<lparr>answer = Response 500 (error_body sid e), active_sessions = sessions,
                pipeline = started\<rparr>))"

definition missing_fields_message :: string where
  "missing_fields_message =
     ''FALHA CRITICA: Segmento e Produto sao obrigatorios para analise com dados reais''"

text \<open>The fields \<^verbatim>\<open>analyze\<close> reads from the request, and the search query it prepares.\<close>

definition read_request ::
  "('a route_world_scheme) \<Rightarrow> pyval \<Rightarrow> (pyval \<times> pyval \<times> pyval \<times> pyval \<times> pyval \<times> pyval) result"
where
  "read_request w data =
     then_do (py_get data ''segmento'' PNone) (\<lambda>segmento_negocio.
     then_do (py_get data ''produto'' PNone) (\<lambda>produto_servico.
     then_do (py_get data ''publico_alvo'' (PStr [])) (\<lambda>publico_alvo.
     then_do (py_get data ''objetivos_estrategicos'' (PStr [])) (\<lambda>objetivos.
     then_do (py_get data ''contexto_adicional'' (PStr [])) (\<lambda>contexto.
     then_do (py_get data ''query''
                (PStr (''mercado de '' @
                       fmt w (if truthy produto_servico then produto_servico
                              else segmento_negocio) @
                       '' no brasil desde 2022''))) (\<lambda>query.
     Inr (segmento_negocio, produto_servico, publico_alvo, objetivos, contexto, query)))))))"

text \<open>
  The rest of \<^verbatim>\<open>analyze\<close> once the request has passed the validation: the run of the
  orchestrator and the answer built from what it returns.
\<close>

definition run_and_answer ::
  "orchestrator \<Rightarrow> ('a route_world_scheme) \<Rightarrow> (string \<rightharpoonup> (string \<times> pyval) list) \<Rightarrow> string \<Rightarrow>
   pyval \<Rightarrow> outcome"
where
  "run_and_answer orch w sessions1 session_id analysis_data =
     (let r = execute_synchronized_analysis orch (world.truncate w)
                (Some (send_progress_update w)) analysis_data session_id
      in case returned_value r of
           Inl e \<Rightarrow> analyze_handler w sessions1 (Some session_id) (Some r) e
         | Inr resultado \<Rightarrow>
             (case py_get resultado ''success'' (PBool False) of
                Inl e \<Rightarrow> analyze_handler w sessions1 (Some session_id) (Some r) e
              | Inr ok \<Rightarrow>
                  if \<not> truthy ok
                  then (case py_get resultado ''error'' (PStr ''Erro desconhecido'') of
                          Inl e \<Rightarrow> analyze_handler w sessions1 (Some session_id) (Some r) e
                        | Inr err \<Rightarrow>
                            \<lparr>answer = Response 500 (PDict
                               [(''success'', PBool False),
                                (''error'', PStr (''Falha na analise: '' @ fmt w err)),
                                (''session_id'', PStr session_id),
                                (''partial_data'', resultado)]),
                             active_sessions = sessions1, pipeline = Some r\<rparr>)
                  else (case set_fields sessions1 session_id
                               [(''status'', PStr ''completed''),
                                (''completed_at'', PStr (now_iso w))] of
                          Inl e \<Rightarrow> analyze_handler w sessions1 (Some session_id) (Some r) e
                        | Inr sessions2 \<Rightarrow>
                            \<lparr>answer = Response 200 (PDict
                               [(''success'', PBool True),
                                (''session_id'', PStr session_id),
                                (''message'', PStr ''Analise COMPLETA concluida com sucesso!''),
                                (''processing_time'', PStr ''N/A''),
                                (''data'', resultado)]),
                             active_sessions = sessions2, pipeline = Some r\<rparr>)))"

definition analyze ::
  "orchestrator \<Rightarrow> ('a route_world_scheme) \<Rightarrow> (string \<rightharpoonup> (string \<times> pyval) list) \<Rightarrow> pyval \<Rightarrow>
   outcome"
where
  "analyze orch w sessions data =
     (if \<not> truthy data
      then \<lparr>answer = Response 400 (PDict [(''error'', PStr ''Dados nao fornecidos'')]),
            active_sessions = sessions, pipeline = None\<rparr>
      else case iniciar_sessao w of
        Inl e \<Rightarrow> analyze_handler w sessions None None e
      | Inr session_id \<Rightarrow>
        (case salvar_etapa w ''requisicao_analise'' of
           Some e \<Rightarrow> analyze_handler w sessions (Some session_id) None e
         | None \<Rightarrow>
           (case read_request w data of
              Inl e \<Rightarrow> analyze_handler w sessions (Some session_id) None e
            | Inr (segmento_negocio, produto_servico, publico_alvo, objetivos, contexto, query) \<Rightarrow>
              (case salvar_etapa w ''query_preparada'' of
                 Some e \<Rightarrow> analyze_handler w sessions (Some session_id) None e
               | None \<Rightarrow>
                 let sessions1 = sessions(session_id \<mapsto>
                       [(''status'', PStr ''running''), (''data'', data),
                        (''started_at'', PStr (now_iso w)), (''paused_at'', PNone)]);
                     analysis_data = PDict
                       [(''segmento'', segmento_negocio), (''produto'', produto_servico),
                        (''publico'', publico_alvo), (''objetivos'', objetivos),
                        (''contexto'', contexto), (''query'', query),
                        (''session_id'', PStr session_id),
                        (''validation_mode'', PStr ''REAL_DATA_ONLY'')]
                 in
                 if \<not> truthy segmento_negocio \<or> \<not> truthy produto_servico
                 then \<lparr>answer = Response 400 (PDict
                          [(''success'', PBool False),
                           (''error'', PStr missing_fields_message),
                           (''session_id'', PStr session_id)]),
                       active_sessions = sessions1, pipeline = None\<rparr>
                 else run_and_answer orch w sessions1 session_id analysis_data))))"

text \<open>
  A request has its mandatory fields when its body is an object in which \<^verbatim>\<open>segmento\<close> and
  \<^verbatim>\<open>produto\<close> are present with true values (not \<^verbatim>\<open>None\<close>, not empty, not zero).
\<close>

definition has_mandatory_fields :: "pyval \<Rightarrow> bool" where
  "has_mandatory_fields data =
     (case data of
        PDict d \<Rightarrow>
          (case map_of d ''segmento'' of None \<Rightarrow> False | Some v \<Rightarrow> truthy v) \<and>
          (case map_of d ''produto'' of None \<Rightarrow> False | Some v \<Rightarrow> truthy v)
      | _ \<Rightarrow> False)"

text \<open>Worlds for the examples: the helpers return, and the session gets the name s1.\<close>

definition quiet_route_world :: route_world where
  "quiet_route_world =
     world.extend quiet_world
       \<lparr>iniciar_sessao = Inr ''s1'', salvar_etapa = (\<lambda>step. None)\<rparr>"

definition only_query :: pyval where
  "only_query = PDict [(''query'', PStr ''mercado fitness'')]"
section \<open>Properties of the generation provider registry\<close>

lemma lookup_update_provider:
  "lookup (update_provider name f ps) n =
     (if n = name then map_option f (lookup ps n) else lookup ps n)"
  by (induction ps) (auto simp: lookup_def update_provider_def)

lemma failure_step_fields:
  "consecutive_failures (failure_step p) = consecutive_failures p + 1"
  "error_count (failure_step p) = error_count p + 1"
  "max_errors (failure_step p) = max_errors p"
  "last_success (failure_step p) = last_success p"
  "priority (failure_step p) = priority p"
  "available (failure_step p) = (available p \<and> consecutive_failures p + 1 < max_errors p)"
  by (auto simp: failure_step_def Let_def)

lemma failure_step_funpow:
  "consecutive_failures ((failure_step ^^ k) p) = consecutive_failures p + int k"
  "max_errors ((failure_step ^^ k) p) = max_errors p"
  by (induction k) (auto simp: failure_step_fields)

lemma failure_step_funpow_available:
  "available ((failure_step ^^ k) p) =
     (available p \<and> (k = 0 \<or> consecutive_failures p + int k < max_errors p))"
proof (induction k)
  case 0
  show ?case by simp
next
  case (Suc k)
  have "available ((failure_step ^^ Suc k) p) =
          (available ((failure_step ^^ k) p) \<and> consecutive_failures p + int k + 1 < max_errors p)"
    by (simp add: failure_step_fields failure_step_funpow)
  also have "\<dots> = (available p \<and> consecutive_failures p + int (Suc k) < max_errors p)"
    unfolding Suc by auto
  finally show ?case by simp
qed

lemma lookup_record_failure_funpow:
  "lookup ((record_failure name ^^ k) ps) name = map_option (failure_step ^^ k) (lookup ps name)"
proof (induction k)
  case 0
  show ?case by (simp add: option.map_ident)
next
  case (Suc k)
  show ?case
    by (simp add: record_failure_def lookup_update_provider Suc [unfolded record_failure_def]
        option.map_comp comp_def)
qed

lemma success_step_fields:
  "available (success_step now p)"
  "consecutive_failures (success_step now p) = 0"
  "last_success (success_step now p) = Some now"
  "error_count (success_step now p) = error_count p"
  "max_errors (success_step now p) = max_errors p"
  by (auto simp: success_step_def Let_def)

text \<open>
  Claim C5. A provider of the dictionary whose count of consecutive failures is zero and
  whose \<^verbatim>\<open>max_errors\<close> is positive keeps its \<^verbatim>\<open>available\<close> flag through fewer than
  \<^verbatim>\<open>max_errors\<close> calls of \<^verbatim>\<open>_record_failure\<close>, is unavailable after exactly \<^verbatim>\<open>max_errors\<close>
  calls, and one call of \<^verbatim>\<open>_record_success\<close> after them makes it available, sets
  \<^verbatim>\<open>consecutive_failures\<close> to zero and \<^verbatim>\<open>last_success\<close> to the clock reading.
\<close>

theorem record_failure_disables_record_success_restores:
  assumes "lookup ps name = Some p"
    and "consecutive_failures p = 0"
    and "0 < max_errors p"
  shows "(\<forall>k < nat (max_errors p). \<exists>q.
            lookup ((record_failure name ^^ k) ps) name = Some q \<and> available q = available p) \<and>
         (\<exists>q. lookup ((record_failure name ^^ nat (max_errors p)) ps) name = Some q \<and>
            \<not> available q \<and> consecutive_failures q = max_errors p) \<and>
         (\<exists>r. lookup (record_success now name ((record_failure name ^^ nat (max_errors p)) ps)) name
                = Some r \<and>
            available r \<and> consecutive_failures r = 0 \<and> last_success r = Some now)"
proof (intro conjI allI impI)
  fix k
  assume "k < nat (max_errors p)"
  then have "k = 0 \<or> consecutive_failures p + int k < max_errors p"
    using assms(2) by linarith
  then show "\<exists>q. lookup ((record_failure name ^^ k) ps) name = Some q \<and> available q = available p"
    by (auto simp: lookup_record_failure_funpow assms(1) failure_step_funpow_available)
next
  have "\<not> available ((failure_step ^^ nat (max_errors p)) p)"
    using assms(2,3) by (simp add: failure_step_funpow_available)
  moreover have "consecutive_failures ((failure_step ^^ nat (max_errors p)) p) = max_errors p"
    using assms(2,3) by (simp add: failure_step_funpow)
  ultimately show "\<exists>q. lookup ((record_failure name ^^ nat (max_errors p)) ps) name = Some q \<and>
      \<not> available q \<and> consecutive_failures q = max_errors p"
    by (simp add: lookup_record_failure_funpow assms(1))
next
  show "\<exists>r. lookup (record_success now name ((record_failure name ^^ nat (max_errors p)) ps)) name
          = Some r \<and>
        available r \<and> consecutive_failures r = 0 \<and> last_success r = Some now"
    by (simp add: record_success_def lookup_update_provider lookup_record_failure_funpow assms(1)
        success_step_fields)
qed

lemma lookup_configured_gemini:
  "lookup configured_providers ''gemini'' =
     Some \<lparr>available = True, priority = 1, error_count = 0, max_errors = 2,
           last_success = None, consecutive_failures = 0\<rparr>"
  by (simp add: configured_providers_def initial_providers_def update_provider_def lookup_def)

theorem record_failure_disables_record_success_restores_witness:
  "(\<exists>p. lookup configured_providers ''gemini'' = Some p \<and> consecutive_failures p = 0 \<and>
        0 < max_errors p \<and> max_errors p = 2 \<and> available p) \<and>
   (\<exists>q. lookup ((record_failure ''gemini'' ^^ 1) configured_providers) ''gemini'' = Some q \<and>
        available q) \<and>
   (\<exists>q. lookup ((record_failure ''gemini'' ^^ 2) configured_providers) ''gemini'' = Some q \<and>
        \<not> available q \<and> consecutive_failures q = 2) \<and>
   (\<exists>r. lookup (record_success 1000 ''gemini''
              ((record_failure ''gemini'' ^^ 2) configured_providers)) ''gemini'' = Some r \<and>
        available r \<and> consecutive_failures r = 0 \<and> last_success r = Some 1000)"
proof -
  let ?p = "\<lparr>available = True, priority = 1, error_count = 0, max_errors = 2,
             last_success = None, consecutive_failures = 0\<rparr>"
  have t: "(\<forall>k < nat (max_errors ?p). \<exists>q.
            lookup ((record_failure ''gemini'' ^^ k) configured_providers) ''gemini'' = Some q \<and>
            available q = available ?p) \<and>
         (\<exists>q. lookup ((record_failure ''gemini'' ^^ nat (max_errors ?p)) configured_providers)
                 ''gemini'' = Some q \<and>
            \<not> available q \<and> consecutive_failures q = max_errors ?p) \<and>
         (\<exists>r. lookup (record_success 1000 ''gemini''
                  ((record_failure ''gemini'' ^^ nat (max_errors ?p)) configured_providers))
                 ''gemini'' = Some r \<and>
            available r \<and> consecutive_failures r = 0 \<and> last_success r = Some 1000)"
    by (rule record_failure_disables_record_success_restores
        [OF lookup_configured_gemini, of 1000]) simp_all
  have two: "nat (max_errors ?p) = 2" by simp
  from t have one: "\<exists>q. lookup ((record_failure ''gemini'' ^^ 1) configured_providers) ''gemini''
      = Some q \<and> available q = available ?p"
    unfolding two by (metis one_less_numeral_iff semiring_norm(76))
  show ?thesis
    using t one unfolding two by (simp add: lookup_configured_gemini)
qed

lemma fst_reprobe [simp]: "fst (reprobe fl t np) = fst np"
  by (cases np) (simp add: reprobe_def)

lemma lookup_map_reprobe:
  "lookup (map (reprobe fl t) ps) n = map_option (\<lambda>p. snd (reprobe fl t (n, p))) (lookup ps n)"
  by (induction ps) (auto simp: lookup_def reprobe_def)

lemma lookup_map_reset:
  "lookup (map (\<lambda>(n, p). (n, reset_counters p)) ps) n = map_option reset_counters (lookup ps n)"
  by (induction ps) (auto simp: lookup_def)

lemma snd_get_best_provider:
  "snd (get_best_provider fl t ps) =
     (if list_ex (\<lambda>np. healthy (snd np)) (map (reprobe fl t) ps) then map (reprobe fl t) ps
      else map (\<lambda>(n, p). (n, reset_counters p)) (map (reprobe fl t) ps))"
  by (simp add: get_best_provider_def Let_def filter_empty_conv list_ex_iff)


lemma available_reset_counters [simp]: "available (reset_counters p) = available p"
  by (simp add: reset_counters_def)




text \<open>Unfolding the registry's definitions on concrete dictionaries.\<close>

lemmas eval_defs = configured_providers_def initial_providers_def update_provider_def
      record_failure_def failure_step_def record_success_def success_step_def
      get_best_provider_def reprobe_def cooldown_elapsed_def reenabled_def all_flags_def
      truthy_time_def healthy_def reset_counters_def rank_def lookup_def Let_def







text \<open>
  Claim C6, as the code has it. \<^verbatim>\<open>get_best_provider\<close>, called at clock reading \<open>now\<close>,
  makes an unavailable provider available exactly when its \<^verbatim>\<open>last_success\<close> is set (not
  \<^verbatim>\<open>None\<close>, not zero), more than 300 seconds lie between \<^verbatim>\<open>last_success\<close> and \<open>now\<close>, and
  its library flag is on (always for huggingface); whenever the first two hold, both
  failure counters are zero afterwards. The cooldown runs from the last success, not
  from the moment the provider was disabled.
\<close>

theorem reprobe_condition:
  assumes "lookup ps name = Some p" and "\<not> available p"
  shows "\<exists>q. lookup (snd (get_best_provider fl now ps)) name = Some q \<and>
           (available q \<longleftrightarrow>
              (\<exists>t. last_success p = Some t \<and> t \<noteq> 0 \<and> now - t > 300) \<and> reenabled fl name) \<and>
           ((\<exists>t. last_success p = Some t \<and> t \<noteq> 0 \<and> now - t > 300) \<longrightarrow>
              consecutive_failures q = 0 \<and> error_count q = 0)"
proof -
  have c: "cooldown_elapsed now p \<longleftrightarrow> (\<exists>t. last_success p = Some t \<and> t \<noteq> 0 \<and> now - t > 300)"
    using assms(2) by (auto simp: cooldown_elapsed_def truthy_time_def split: option.splits)
  let ?q1 = "snd (reprobe fl now (name, p))"
  have q1: "available ?q1 \<longleftrightarrow> cooldown_elapsed now p \<and> reenabled fl name"
    using assms(2) by (simp add: reprobe_def)
  have q1c: "cooldown_elapsed now p \<Longrightarrow> consecutive_failures ?q1 = 0 \<and> error_count ?q1 = 0"
    by (simp add: reprobe_def)
  have l1: "lookup (map (reprobe fl now) ps) name = Some ?q1"
    by (simp add: lookup_map_reprobe assms(1))
  have l2: "lookup (map (\<lambda>(n, p). (n, reset_counters p)) (map (reprobe fl now) ps)) name =
      Some (reset_counters ?q1)"
    by (simp only: lookup_map_reset l1 option.map)
  have "lookup (snd (get_best_provider fl now ps)) name = Some ?q1 \<or>
        lookup (snd (get_best_provider fl now ps)) name = Some (reset_counters ?q1)"
    unfolding snd_get_best_provider
    by (cases "list_ex (\<lambda>np. healthy (snd np)) (map (reprobe fl now) ps)")
      (simp_all only: if_True if_False l1 l2 simp_thms)
  then show ?thesis
    using q1 q1c c by (auto simp: reset_counters_def)
qed


theorem reprobe_condition_witness:
  "(let ps = run_calls all_flags
        [(1000, Record_success ''gemini''), (1289, Record_failure ''gemini''),
         (1290, Record_failure ''gemini'')] configured_providers
    in (\<exists>p. lookup ps ''gemini'' = Some p \<and> \<not> available p \<and> last_success p = Some 1000) \<and>
       (\<exists>q. lookup (snd (get_best_provider all_flags 1301 ps)) ''gemini'' = Some q \<and>
            available q \<and> consecutive_failures q = 0 \<and> error_count q = 0))"
proof -
  let ?ps = "run_calls all_flags
        [(1000, Record_success ''gemini''), (1289, Record_failure ''gemini''),
         (1290, Record_failure ''gemini'')] configured_providers"
  let ?p = "\<lparr>available = False, priority = 1, error_count = 2, max_errors = 2,
             last_success = Some 1000, consecutive_failures = 2\<rparr>"
  have l: "lookup ?ps ''gemini'' = Some ?p"
    by (simp add: eval_defs)
  have u: "\<not> available ?p" by simp
  have c: "\<exists>t. last_success ?p = Some t \<and> t \<noteq> 0 \<and> (1301::real) - t > 300" by simp
  have r: "reenabled all_flags ''gemini''" by (simp add: reenabled_def all_flags_def)
  from reprobe_condition [OF l u, of all_flags 1301] c r
  have g: "\<exists>q. lookup (snd (get_best_provider all_flags 1301 ?ps)) ''gemini'' = Some q \<and>
            available q \<and> consecutive_failures q = 0 \<and> error_count q = 0"
    by blast
  have "\<exists>p. lookup ?ps ''gemini'' = Some p \<and> \<not> available p \<and> last_success p = Some 1000"
    by (rule exI [of _ ?p]) (simp only: l, simp)
  with g show ?thesis
    unfolding Let_def by (rule conjI [rotated])
qed

text \<open>
  Claim C6 as stated fails in both directions. Gemini succeeds at 1000 and is disabled by
  its second failure at 1290; the call at 1301, eleven seconds later, makes it available
  again with its counters at zero. Groq, which never succeeded, is disabled at 1290 and
  the call at 5000 leaves it unavailable.
\<close>

theorem reprobe_cooldown_counterexample:
  "(let s2 = run_calls all_flags
        [(1000, Record_success ''gemini''), (1289, Record_failure ''gemini'')]
        configured_providers;
        s3 = run_call all_flags (1290, Record_failure ''gemini'') s2;
        s4 = run_call all_flags (1301, Get_best_provider) s3;
        g2 = run_calls all_flags
        [(1289, Record_failure ''groq''), (1290, Record_failure ''groq'')] configured_providers;
        g3 = run_call all_flags (5000, Get_best_provider) g2
    in map_option available (lookup s2 ''gemini'') = Some True \<and>
       map_option available (lookup s3 ''gemini'') = Some False \<and>
       map_option available (lookup s4 ''gemini'') = Some True \<and>
       map_option consecutive_failures (lookup s4 ''gemini'') = Some 0 \<and>
       (1301 :: real) < 1290 + 300 \<and>
       map_option available (lookup g2 ''groq'') = Some False \<and>
       map_option available (lookup g3 ''groq'') = Some False \<and>
       (5000 :: real) > 1290 + 300)"
  by (simp add: eval_defs)

section \<open>Properties of the search manager\<close>

text \<open>
  Claim C8. A result saved under a key is returned by a lookup of that key made less
  than \<^verbatim>\<open>cache_ttl\<close> (3600 seconds) after the save, and the lookup leaves the cache as it
  is; the lookup of a key that is absent returns a miss; the lookup of a key whose entry
  is \<^verbatim>\<open>cache_ttl\<close> old or older returns a miss and deletes that entry; a lookup and a save
  leave the entries of all other keys alone, expired or not.
\<close>

theorem cache_hit_miss_eviction:
  "(later - now < cache_ttl \<longrightarrow>
      get_from_cache later k (save_to_cache now k v prov c) =
        (Some v, save_to_cache now k v prov c)) \<and>
   (c k = None \<longrightarrow> get_from_cache later k c = (None, c)) \<and>
   (\<forall>e. c k = Some e \<and> cache_ttl \<le> later - timestamp e \<longrightarrow>
      get_from_cache later k c = (None, c(k := None)) \<and>
      snd (get_from_cache later k c) k = None) \<and>
   (\<forall>k'. k' \<noteq> k \<longrightarrow>
      snd (get_from_cache later k c) k' = c k' \<and> save_to_cache now k v prov c k' = c k')"
  by (auto simp: get_from_cache_def save_to_cache_def split: option.splits)

theorem cache_hit_miss_eviction_witness:
  "((3699::real) - 100 < cache_ttl \<and>
      get_from_cache 3699 ''k'' (save_to_cache 100 ''k'' [''v''] ''bing'' Map.empty) =
        (Some [''v''], save_to_cache 100 ''k'' [''v''] ''bing'' Map.empty)) \<and>
   ((Map.empty :: string list cache) ''k'' = None \<and>
      get_from_cache 3699 ''k'' (Map.empty :: string list cache) = (None, Map.empty)) \<and>
   (save_to_cache 100 ''k'' [''v''] ''bing'' Map.empty ''k'' =
      Some \<lparr>results = [''v''], timestamp = 100, entry_provider = ''bing''\<rparr> \<and>
    cache_ttl \<le> (3700::real) - 100 \<and>
    get_from_cache 3700 ''k'' (save_to_cache 100 ''k'' [''v''] ''bing'' Map.empty) =
      (None, (save_to_cache 100 ''k'' [''v''] ''bing'' Map.empty)(''k'' := None))) \<and>
   (''j'' \<noteq> ''k'' \<and>
    snd (get_from_cache 3700 ''k'' (save_to_cache 100 ''j'' [''w''] ''bing''
        (save_to_cache 100 ''k'' [''v''] ''bing'' Map.empty))) ''j'' =
      Some \<lparr>results = [''w''], timestamp = 100, entry_provider = ''bing''\<rparr>)"
proof -
  let ?c = "save_to_cache 100 ''k'' [''v''] ''bing'' (Map.empty :: string list cache)"
  let ?e = "\<lparr>results = [''v''], timestamp = 100, entry_provider = ''bing''\<rparr>"
  let ?d = "save_to_cache 100 ''j'' [''w''] ''bing'' ?c"
  have h1: "(3699::real) - 100 < cache_ttl" by (simp add: cache_ttl_def)
  have h3: "?c ''k'' = Some ?e" by (simp add: save_to_cache_def)
  have h3': "cache_ttl \<le> (3700::real) - timestamp ?e" by (simp add: cache_ttl_def)
  have h4: "''j'' \<noteq> ''k''" by simp
  have d: "?d ''j'' = Some \<lparr>results = [''w''], timestamp = 100, entry_provider = ''bing''\<rparr>"
    by (simp add: save_to_cache_def)
  note t1 = cache_hit_miss_eviction [of 3699 100 "''k''" "[''v'']" "''bing''" Map.empty]
  note t3 = cache_hit_miss_eviction [of 3700 100 "''k''" "[''v'']" "''bing''" ?c]
  note t4 = cache_hit_miss_eviction [of 3700 100 "''k''" "[''v'']" "''bing''" ?d]
  have c1: "get_from_cache 3699 ''k'' ?c = (Some [''v''], ?c)"
    by (rule t1 [THEN conjunct1, THEN mp, OF h1])
  have h2: "(Map.empty :: string list cache) ''k'' = None" by simp
  have c2: "get_from_cache 3699 ''k'' (Map.empty :: string list cache) = (None, Map.empty)"
    by (rule t1 [THEN conjunct2, THEN conjunct1, THEN mp, OF h2])
  have c3: "get_from_cache 3700 ''k'' ?c = (None, ?c(''k'' := None))"
    by (rule t3 [THEN conjunct2, THEN conjunct2, THEN conjunct1, THEN spec, THEN mp,
          OF conjI [OF h3 h3'], THEN conjunct1])
  have c4: "snd (get_from_cache 3700 ''k'' ?d) ''j'' = ?d ''j''"
    by (rule t4 [THEN conjunct2, THEN conjunct2, THEN conjunct2, THEN spec, THEN mp,
          OF h4, THEN conjunct1])
  have h3'': "cache_ttl \<le> (3700::real) - 100" by (simp add: cache_ttl_def)
  show ?thesis
    by (intro conjI h1 c1 h2 c2 h3 h3'' c3 h4 c4 [unfolded d])
qed



lemma map_of_record_provider_error:
  "map_of (record_provider_error n ps) name =
     (if name = n then map_option (\<lambda>p. p\<lparr>s_error_count := s_error_count p + 1\<rparr>) (map_of ps name)
      else map_of ps name)"
  by (induction ps) (auto simp: record_provider_error_def)

lemma exhausted_unavailable:
  "map_of ps name = Some p \<Longrightarrow> s_max_errors p \<le> s_error_count p \<Longrightarrow>
     \<not> is_provider_available ps name"
  by (simp add: is_provider_available_def)

lemma fallback_loop_excludes:
  assumes "map_of ps name = Some p" and "s_max_errors p \<le> s_error_count p"
    and "name \<notin> set calls"
    and "fallback_loop backend validate query n order ps calls = (r, ps', calls')"
  shows "map_of ps' name = Some p \<and> name \<notin> set calls'"
  using assms
proof (induction order arbitrary: ps calls)
  case Nil
  then show ?case by simp
next
  case (Cons a order)
  have un: "\<not> is_provider_available ps name"
    using Cons.prems(1,2) by (rule exhausted_unavailable)
  show ?case
  proof (cases "is_provider_available ps a \<and> known_provider a")
    case False
    then have "fallback_loop backend validate query n order ps calls = (r, ps', calls')"
      using Cons.prems(4) by (auto split: if_splits)
    then show ?thesis
      using Cons.IH Cons.prems(1,2,3) by blast
  next
    case True
    then have ne: "a \<noteq> name" using un by auto
    then have nc: "name \<notin> set (calls @ [a])" using Cons.prems(3) by simp
    show ?thesis
    proof (cases "backend a query n")
      case (Inl e)
      then have "fallback_loop backend validate query n order (record_provider_error a ps)
          (calls @ [a]) = (r, ps', calls')"
        using Cons.prems(4) True by simp
      moreover have "map_of (record_provider_error a ps) name = Some p"
        using ne Cons.prems(1) by (simp add: map_of_record_provider_error)
      ultimately show ?thesis
        using Cons.IH Cons.prems(2) nc by blast
    next
      case (Inr res)
      show ?thesis
      proof (cases "res \<noteq> [] \<and> validate res \<noteq> []")
        case True
        then have "ps' = ps \<and> calls' = calls @ [a]"
          using Cons.prems(4) \<open>is_provider_available ps a \<and> known_provider a\<close> Inr by auto
        then show ?thesis using Cons.prems(1) nc by simp
      next
        case False
        then have "fallback_loop backend validate query n order ps (calls @ [a]) = (r, ps', calls')"
          using Cons.prems(4) \<open>is_provider_available ps a \<and> known_provider a\<close> Inr by auto
        then show ?thesis
          using Cons.IH Cons.prems(1,2) nc by blast
      qed
    qed
  qed
qed

lemma search_with_fallback_excludes:
  assumes "map_of (providers_of st) name = Some p" and "s_max_errors p \<le> s_error_count p"
    and "search_with_fallback backend validate key_of now later query n st = (res, calls, st')"
  shows "map_of (providers_of st') name = Some p \<and> name \<notin> set calls"
proof (cases "query = [] \<or> strip query = []")
  case True
  then show ?thesis using assms by (auto simp: search_with_fallback_def)
next
  case False
  obtain cr c1 where g: "get_from_cache now (key_of (strip query) n) (cache_of st) = (cr, c1)"
    by (cases "get_from_cache now (key_of (strip query) n) (cache_of st)")
  obtain r ps1 cs where f: "fallback_loop backend validate (strip query) n
       (get_provider_order (providers_of st)) (providers_of st) [] = (r, ps1, cs)"
    by (cases "fallback_loop backend validate (strip query) n
       (get_provider_order (providers_of st)) (providers_of st) []") auto
  from fallback_loop_excludes [OF assms(1,2) _ f]
  have e: "map_of ps1 name = Some p \<and> name \<notin> set cs" by simp
  show ?thesis
    using assms(1,3) False g f e
    by (auto simp: search_with_fallback_def Let_def split: option.splits list.splits)
qed

lemma search_block_excludes:
  assumes "\<not> is_provider_available ps name" and "name \<notin> set (snd acc)"
  shows "name \<notin> set (snd (search_block backend keep ps query n a wanted acc))"
  using assms by (cases acc) (auto simp: search_block_def split: sum.splits)

lemma comprehensive_search_excludes:
  assumes "\<not> is_provider_available ps name"
  shows "name \<notin> set (snd (comprehensive_search backend keep query n ps))"
  unfolding comprehensive_search_def Let_def
  by (intro search_block_excludes assms) simp

lemma run_search_excludes:
  assumes "map_of (providers_of st) name = Some p" and "s_max_errors p \<le> s_error_count p"
  shows "map_of (providers_of (snd (run_search r st))) name = Some p \<and>
         name \<notin> set (fst (run_search r st))"
proof (cases r)
  case (Fallback backend validate key_of now later query n)
  obtain res calls st' where
    s: "search_with_fallback backend validate key_of now later query n st = (res, calls, st')"
    by (cases "search_with_fallback backend validate key_of now later query n st") auto
  from search_with_fallback_excludes [OF assms s] show ?thesis
    by (simp add: Fallback s)
next
  case (Comprehensive backend keep query n)
  then show ?thesis
    using assms comprehensive_search_excludes [OF exhausted_unavailable [OF assms]]
    by simp
qed

lemma run_searches_excludes:
  assumes "map_of (providers_of st) name = Some p" and "s_max_errors p \<le> s_error_count p"
  shows "map_of (providers_of (snd (run_searches reqs st))) name = Some p \<and>
         name \<notin> set (fst (run_searches reqs st))"
  using assms(1)
proof (induction reqs arbitrary: st)
  case Nil
  then show ?case by simp
next
  case (Cons r reqs)
  from run_search_excludes [OF Cons.prems assms(2), of r]
  have a: "map_of (providers_of (snd (run_search r st))) name = Some p"
    and b: "name \<notin> set (fst (run_search r st))" by simp_all
  from Cons.IH [OF a] b show ?case
    by (simp add: split_def)
qed

lemma map_of_reset_provider_errors:
  "name \<noteq> [] \<Longrightarrow> map_of (reset_provider_errors (Some name) ps) n =
     (if n = name then map_option (\<lambda>p. p\<lparr>s_error_count := 0\<rparr>) (map_of ps n) else map_of ps n)"
  by (induction ps) (auto simp: reset_provider_errors_def)

lemma map_of_reset_all:
  "map_of (reset_provider_errors None ps) n = map_option (\<lambda>p. p\<lparr>s_error_count := 0\<rparr>) (map_of ps n)"
  by (induction ps) (auto simp: reset_provider_errors_def)

text \<open>
  Claim C10. A search provider whose \<^verbatim>\<open>error_count\<close> has reached its \<^verbatim>\<open>max_errors\<close> is
  invoked by no search of any later sequence of \<^verbatim>\<open>search_with_fallback\<close> and
  \<^verbatim>\<open>comprehensive_search\<close> calls, whatever the clock readings and whatever the other
  providers do, and its settings are the same after the sequence, so it is still
  excluded; \<^verbatim>\<open>reset_provider_errors\<close>, for its name or for all providers, sets its counter
  to zero, after which it is available when it is enabled (and its \<^verbatim>\<open>max_errors\<close> is
  positive).
\<close>

theorem exhausted_search_provider_excluded_until_reset:
  assumes "map_of (providers_of st) name = Some p"
    and "s_max_errors p \<le> s_error_count p"
    and "name \<noteq> []"
  shows "name \<notin> set (fst (run_searches reqs st)) \<and>
         map_of (providers_of (snd (run_searches reqs st))) name = Some p \<and>
         \<not> is_provider_available (providers_of (snd (run_searches reqs st))) name \<and>
         map_of (reset_provider_errors (Some name) (providers_of (snd (run_searches reqs st)))) name
           = Some (p\<lparr>s_error_count := 0\<rparr>) \<and>
         map_of (reset_provider_errors None (providers_of (snd (run_searches reqs st)))) name
           = Some (p\<lparr>s_error_count := 0\<rparr>) \<and>
         is_provider_available
           (reset_provider_errors (Some name) (providers_of (snd (run_searches reqs st)))) name
           = (enabled p \<and> 0 < s_max_errors p)"
proof -
  note e = run_searches_excludes [OF assms(1,2), of reqs]
  then have m: "map_of (providers_of (snd (run_searches reqs st))) name = Some p" by simp
  show ?thesis
    using e exhausted_unavailable [OF m assms(2)]
    by (simp add: map_of_reset_provider_errors [OF assms(3)] map_of_reset_all m
        is_provider_available_def)
qed

text \<open>Unfolding the search manager's definitions on concrete states.\<close>

lemmas search_eval = three_failures_def later_searches_def fresh_search_state_def
  example_search_providers_def serper_down_def search_with_fallback_def comprehensive_search_def
  search_block_def get_provider_order_def is_provider_available_def record_provider_error_def
  known_provider_def search_rank_def get_from_cache_def save_to_cache_def strip_def is_space_def
  reset_provider_errors_def Let_def

lemma three_failures_calls:
  "fst (run_searches three_failures fresh_search_state) =
     [''serper'', ''bing'', ''serper'', ''bing'', ''serper'', ''bing'']"
  by (simp add: search_eval)

lemma three_failures_providers:
  "providers_of (snd (run_searches three_failures fresh_search_state)) =
     [(''exa'', \<lparr>enabled = False, s_priority = 1, s_error_count = 0, s_max_errors = 3\<rparr>),
      (''google'', \<lparr>enabled = False, s_priority = 2, s_error_count = 0, s_max_errors = 3\<rparr>),
      (''serper'', \<lparr>enabled = True, s_priority = 3, s_error_count = 3, s_max_errors = 3\<rparr>),
      (''bing'', \<lparr>enabled = True, s_priority = 4, s_error_count = 0, s_max_errors = 5\<rparr>)]"
  by (simp add: search_eval)

lemma later_searches_calls:
  "fst (run_searches later_searches (snd (run_searches three_failures fresh_search_state))) =
     [''bing'', ''bing'']"
  by (simp add: search_eval)

theorem exhausted_search_provider_excluded_until_reset_witness:
  "map_of (providers_of (snd (run_searches three_failures fresh_search_state))) ''serper'' =
     Some \<lparr>enabled = True, s_priority = 3, s_error_count = 3, s_max_errors = 3\<rparr> \<and>
   fst (run_searches later_searches (snd (run_searches three_failures fresh_search_state))) =
     [''bing'', ''bing''] \<and>
   ''serper'' \<notin> set (fst (run_searches later_searches
      (snd (run_searches three_failures fresh_search_state)))) \<and>
   \<not> is_provider_available (providers_of (snd (run_searches later_searches
      (snd (run_searches three_failures fresh_search_state))))) ''serper'' \<and>
   is_provider_available (reset_provider_errors (Some ''serper'')
      (providers_of (snd (run_searches later_searches
         (snd (run_searches three_failures fresh_search_state)))))) ''serper''"
proof -
  let ?p = "\<lparr>enabled = True, s_priority = 3, s_error_count = 3, s_max_errors = 3\<rparr>"
  let ?st = "snd (run_searches three_failures fresh_search_state)"
  have h1: "map_of (providers_of ?st) ''serper'' = Some ?p"
    by (simp add: three_failures_providers)
  have h2: "s_max_errors ?p \<le> s_error_count ?p" by simp
  have h3: "''serper'' \<noteq> []" by simp
  note t = exhausted_search_provider_excluded_until_reset [OF h1 h2 h3, of later_searches]
  have c1: "''serper'' \<notin> set (fst (run_searches later_searches ?st))"
    by (rule t [THEN conjunct1])
  have c2: "\<not> is_provider_available (providers_of (snd (run_searches later_searches ?st)))
      ''serper''"
    by (rule t [THEN conjunct2, THEN conjunct2, THEN conjunct1])
  have "is_provider_available (reset_provider_errors (Some ''serper'')
      (providers_of (snd (run_searches later_searches ?st)))) ''serper'' =
      (enabled ?p \<and> 0 < s_max_errors ?p)"
    by (rule t [THEN conjunct2, THEN conjunct2, THEN conjunct2, THEN conjunct2, THEN conjunct2])
  then have c3: "is_provider_available (reset_provider_errors (Some ''serper'')
      (providers_of (snd (run_searches later_searches ?st)))) ''serper''"
    by simp
  show ?thesis
    by (intro conjI h1 later_searches_calls c1 c2 c3)
qed

section \<open>Properties of the capability router\<close>

lemma try_patterns_char:
  "try_patterns tbl a ps =
     (case dropWhile (\<lambda>p. \<not> succeeds tbl a p) (filter (\<lambda>p. map_of tbl p \<noteq> None) ps) of
        [] \<Rightarrow> None
      | p # _ \<Rightarrow> Some (returned tbl a p),
      takeWhile (\<lambda>p. \<not> succeeds tbl a p) (filter (\<lambda>p. map_of tbl p \<noteq> None) ps) @
      take 1 (dropWhile (\<lambda>p. \<not> succeeds tbl a p) (filter (\<lambda>p. map_of tbl p \<noteq> None) ps)))"
proof (induction ps)
  case Nil
  show ?case by simp
next
  case (Cons p ps)
  show ?case
  proof (cases "map_of tbl p")
    case None
    then show ?thesis using Cons by simp
  next
    case (Some m)
    show ?thesis
    proof (cases "m a")
      case (Inl e)
      then show ?thesis using Some Cons by (simp add: succeeds_def split: list.splits)
    next
      case (Inr res)
      then show ?thesis using Some Cons
        by (simp add: succeeds_def returned_def split: list.splits)
    qed
  qed
qed

lemma safe_call_service_method_eq:
  assumes "service_name \<in> set (services orch)"
  shows "safe_call_service_method orch service_name ps a =
     (case dropWhile (\<lambda>p. \<not> succeeds (table_of orch service_name) a p)
             (filter (\<lambda>p. map_of (table_of orch service_name) p \<noteq> None) ps) of
        [] \<Rightarrow> method_not_found service_name (table_of orch service_name) ps
      | p # _ \<Rightarrow> returned (table_of orch service_name) a p,
      takeWhile (\<lambda>p. \<not> succeeds (table_of orch service_name) a p)
        (filter (\<lambda>p. map_of (table_of orch service_name) p \<noteq> None) ps) @
      take 1 (dropWhile (\<lambda>p. \<not> succeeds (table_of orch service_name) a p)
        (filter (\<lambda>p. map_of (table_of orch service_name) p \<noteq> None) ps)))"
proof -
  have "safe_call_service_method orch service_name ps a =
      (case try_patterns (table_of orch service_name) a ps of
         (Some res, calls) \<Rightarrow> (res, calls)
       | (None, calls) \<Rightarrow> (method_not_found service_name (table_of orch service_name) ps, calls))"
    using assms by (simp add: safe_call_service_method_def Let_def)
  then show ?thesis
    unfolding try_patterns_char
    by (cases "dropWhile (\<lambda>p. \<not> succeeds (table_of orch service_name) a p)
             (filter (\<lambda>p. map_of (table_of orch service_name) p \<noteq> None) ps)")
      (simp_all only: list.case option.case prod.case)
qed

lemma dropWhile_head: "dropWhile P xs = y # ys \<Longrightarrow> \<not> P y"
  by (metis hd_dropWhile list.sel(1) list.simps(3))

text \<open>
  Claim C7. For a registered service, \<^verbatim>\<open>_safe_call_service_method\<close> calls, in the order
  of the caller's patterns, the patterns that are keys of the service's operation table
  and only those: every one that raises or returns a false value, up to and including
  the first that returns a true value, whose value it returns; when there is no such
  pattern the result is the \<^verbatim>\<open>method_not_found\<close> dictionary, which carries the patterns
  tried and the keys of the table. With the patterns foo, bar and a table that holds bar
  only, bar is called once and nothing else.
\<close>

theorem safe_call_service_method_tries_in_order:
  assumes "service_name \<in> set (services orch)"
  shows "(let tbl = table_of orch service_name;
              present = filter (\<lambda>p. map_of tbl p \<noteq> None) method_patterns;
              failed = takeWhile (\<lambda>p. \<not> succeeds tbl a p) present;
              rest = dropWhile (\<lambda>p. \<not> succeeds tbl a p) present;
              out = safe_call_service_method orch service_name method_patterns a
          in snd out = failed @ take 1 rest \<and>
             (case rest of
                p # _ \<Rightarrow> fst out = returned tbl a p \<and> truthy (fst out)
              | [] \<Rightarrow>
                  py_get (fst out) ''status'' PNone = Inr (PStr ''method_not_found'') \<and>
                  py_get (fst out) ''tried_patterns'' PNone = Inr (PList (map PStr method_patterns)) \<and>
                  py_get (fst out) ''available_methods'' PNone =
                    Inr (PList (map (\<lambda>kv. PStr (fst kv)) tbl))))"
proof -
  let ?tbl = "table_of orch service_name"
  let ?present = "filter (\<lambda>p. map_of ?tbl p \<noteq> None) method_patterns"
  let ?rest = "dropWhile (\<lambda>p. \<not> succeeds ?tbl a p) ?present"
  note eq = safe_call_service_method_eq [OF assms, of method_patterns a]
  show ?thesis
  proof (cases ?rest)
    case Nil
    show ?thesis
      unfolding Let_def eq Nil by (simp add: method_not_found_def)
  next
    case (Cons p ps)
    then have "succeeds ?tbl a p"
      using dropWhile_head by fastforce
    then have "truthy (returned ?tbl a p)"
      by (auto simp: succeeds_def returned_def split: option.splits sum.splits)
    then show ?thesis
      unfolding Let_def eq Cons by simp
  qed
qed

lemma bar_table: "table_of bar_service ''svc'' =
    [(''bar'', \<lambda>a. Inr (PDict [(''status'', PStr ''success'')]))]"
  by (simp add: table_of_def bar_service_def)

theorem safe_call_service_method_tries_in_order_witness:
  "''svc'' \<in> set (services bar_service) \<and>
   map fst (table_of bar_service ''svc'') = [''bar''] \<and>
   safe_call_service_method bar_service ''svc'' [''foo'', ''bar''] ([], []) =
     (PDict [(''status'', PStr ''success'')], [''bar''])"
proof -
  have h: "''svc'' \<in> set (services bar_service)" by (simp add: bar_service_def)
  note t = safe_call_service_method_tries_in_order [OF h, of "[''foo'', ''bar'']" "([], [])"]
  have s: "succeeds (table_of bar_service ''svc'') ([], []) ''bar''"
    by (simp add: bar_table succeeds_def)
  have r: "returned (table_of bar_service ''svc'') ([], []) ''bar'' =
      PDict [(''status'', PStr ''success'')]"
    by (simp add: bar_table returned_def)
  have p: "filter (\<lambda>p. map_of (table_of bar_service ''svc'') p \<noteq> None) [''foo'', ''bar''] = [''bar'']"
    by (simp add: bar_table)
  from t have "snd (safe_call_service_method bar_service ''svc'' [''foo'', ''bar''] ([], [])) = [''bar''] \<and>
      fst (safe_call_service_method bar_service ''svc'' [''foo'', ''bar''] ([], [])) =
        PDict [(''status'', PStr ''success'')]"
    unfolding Let_def p using s r by simp
  then show ?thesis
    using h by (simp add: bar_table prod_eq_iff)
qed

text \<open>
  A method that raises and one that returns an empty dictionary are passed over; the
  first true value ends the loop, and the pattern after it is not called.
\<close>

lemma flaky_service_calls:
  "safe_call_service_method flaky_service ''svc'' [''x'', ''a'', ''b'', ''c'', ''d''] ([], []) =
     (PInt 7, [''a'', ''b'', ''c''])"
  by (simp add: safe_call_service_method_def table_of_def flaky_service_def)


section \<open>Properties of the pipeline run\<close>

lemma phase_quiet:
  "quiet cb \<Longrightarrow> (n, m, s) \<in> set progress_plan \<Longrightarrow>
     phase cb n m orch tr done rest = rest (tr @ announced cb n m)"
  by (auto simp: phase_def quiet_def announced_def list_all_iff split: option.splits)

lemma phase_quiet_plan:
  assumes "quiet cb"
  shows "phase cb 1 ''Executando pesquisa web massiva com dados reais...'' orch tr done rest =
           rest (tr @ announced cb 1 ''Executando pesquisa web massiva com dados reais...'')"
    and "phase cb 2 ''Analisando redes sociais com dados reais...'' orch tr done rest =
           rest (tr @ announced cb 2 ''Analisando redes sociais com dados reais...'')"
    and "phase cb 3 ''Criando avatar ultra-detalhado com dados reais...'' orch tr done rest =
           rest (tr @ announced cb 3 ''Criando avatar ultra-detalhado com dados reais...'')"
    and "phase cb 4 ''Gerando drivers mentais customizados com dados reais...'' orch tr done rest =
           rest (tr @ announced cb 4 ''Gerando drivers mentais customizados com dados reais...'')"
    and "phase cb 5 ''Criando provas visuais com dados reais...'' orch tr done rest =
           rest (tr @ announced cb 5 ''Criando provas visuais com dados reais...'')"
    and "phase cb 6 ''Desenvolvendo sistema anti-objecao com dados reais...'' orch tr done rest =
           rest (tr @ announced cb 6 ''Desenvolvendo sistema anti-objecao com dados reais...'')"
    and "phase cb 7 ''Construindo pre-pitch invisivel com dados reais...'' orch tr done rest =
           rest (tr @ announced cb 7 ''Construindo pre-pitch invisivel com dados reais...'')"
    and "phase cb 8 ''Gerando predicoes futuras com dados reais...'' orch tr done rest =
           rest (tr @ announced cb 8 ''Gerando predicoes futuras com dados reais...'')"
    and "phase cb 9 ''Analisando concorrencia com dados reais...'' orch tr done rest =
           rest (tr @ announced cb 9 ''Analisando concorrencia com dados reais...'')"
    and "phase cb 10 ''Extraindo insights exclusivos com dados reais...'' orch tr done rest =
           rest (tr @ announced cb 10 ''Extraindo insights exclusivos com dados reais...'')"
    and "phase cb 11 ''Identificando palavras-chave estrategicas com dados reais...'' orch tr done
           rest =
           rest (tr @ announced cb 11
             ''Identificando palavras-chave estrategicas com dados reais...'')"
    and "phase cb 12 ''Otimizando funil de vendas com dados reais...'' orch tr done rest =
           rest (tr @ announced cb 12 ''Otimizando funil de vendas com dados reais...'')"
    and "phase cb 13 ''Gerando relatorio final completo com dados reais...'' orch tr done rest =
           rest (tr @ announced cb 13 ''Gerando relatorio final completo com dados reais...'')"
  by (rule phase_quiet [OF assms], simp add: progress_plan_def)+

lemma stage_events_append [simp]:
  "stage_events (xs @ ys) = stage_events xs @ stage_events ys"
  by (simp add: stage_events_def)

lemma stage_events_announced [simp]: "stage_events (announced cb n m) = []"
  by (simp add: stage_events_def announced_def split: option.splits)

lemma stage_events_simps [simp]:
  "stage_events [] = []"
  "stage_events (Stage s # evs) = s # stage_events evs"
  "stage_events (Callback n m # evs) = stage_events evs"
  by (simp_all add: stage_events_def)

lemma quiet_run:
  assumes "quiet cb"
  shows "\<exists>report.
           returned_value (execute_async_analysis orch w cb data session_id) =
             Inr (success_envelope session_id (clock_end w - clock_start w) report) \<and>
           report = generate_final_report
                      (orch\<lparr>global_recursion_depth := [],
                            execution_state := (execution_state orch)
                              (session_id \<mapsto> running_session (clock_start w))\<rparr>) w
                      (consolidated (execute_async_analysis orch w cb data session_id)) session_id"
    and "session_status (final (execute_async_analysis orch w cb data session_id)) session_id =
           Some ''completed''"
    and "stage_events (trace (execute_async_analysis orch w cb data session_id)) = all_stages"
    and "map fst (stage_results (execute_async_analysis orch w cb data session_id)) = stage_keys"
    and "map fst (consolidated (execute_async_analysis orch w cb data session_id)) =
           [''session_id'', ''projeto_dados'', ''pesquisa_web_massiva'', ''avatar_ultra_detalhado'',
            ''drivers_mentais_customizados'', ''provas_visuais_arsenal'', ''sistema_anti_objecao'',
            ''pre_pitch_invisivel'', ''predicoes_futuro_detalhadas'', ''analise_concorrencia'',
            ''insights_exclusivos'', ''palavras_chave_estrategicas'', ''funil_vendas_otimizado'',
            ''analise_redes_sociais'']"
  by (simp_all add: execute_async_analysis_def Let_def phase_quiet_plan [OF assms]
      session_status_def complete_session_def running_session_def all_stages_def stage_keys_def)

lemma run_keeps_services:
  "services (orch\<lparr>global_recursion_depth := g, execution_state := x\<rparr>) = services orch"
  "service_methods (orch\<lparr>global_recursion_depth := g, execution_state := x\<rparr>) =
     service_methods orch"
  by simp_all

lemma safe_call_service_method_state [simp]:
  "safe_call_service_method (orch\<lparr>global_recursion_depth := g, execution_state := x\<rparr>) =
     safe_call_service_method orch"
  by (intro ext) (simp add: safe_call_service_method_def table_of_def)

lemma generate_final_report_body_state [simp]:
  "generate_final_report_body (orch\<lparr>global_recursion_depth := g, execution_state := x\<rparr>) =
     generate_final_report_body orch"
  unfolding generate_final_report_body_def call_service_def safe_call_service_method_state
    run_keeps_services by (rule refl)

lemma quiet_sync_run:
  assumes "quiet cb" and "truthy data"
  shows "execute_synchronized_analysis orch w cb data session_id =
           execute_async_analysis orch w cb data session_id"
  using quiet_run(1) [OF assms(1), of orch w data session_id] assms(2)
  by (auto simp: execute_synchronized_analysis_def Let_def)


lemma below_thirteen:
  "(k::nat) < 13 \<Longrightarrow>
     k = 0 \<or> k = 1 \<or> k = 2 \<or> k = 3 \<or> k = 4 \<or> k = 5 \<or> k = 6 \<or> k = 7 \<or> k = 8 \<or> k = 9 \<or>
     k = 10 \<or> k = 11 \<or> k = 12"
  by presburger

lemma aborted_async_run:
  assumes "k < 13"
    and "\<forall>j<k. f (fst (progress_plan ! j)) (fst (snd (progress_plan ! j))) = None"
    and "f (fst (progress_plan ! k)) (fst (snd (progress_plan ! k))) = Some e"
  shows "returned_value (execute_async_analysis orch w (Some f) data session_id) = Inl e \<and>
         final (execute_async_analysis orch w (Some f) data session_id) =
           orch\<lparr>global_recursion_depth := [],
                 execution_state := (execution_state orch)
                   (session_id \<mapsto> running_session (clock_start w))\<rparr> \<and>
         trace (execute_async_analysis orch w (Some f) data session_id) =
           planned_events (take k progress_plan) @
           [Callback (fst (progress_plan ! k)) (fst (snd (progress_plan ! k)))] \<and>
         map fst (stage_results (execute_async_analysis orch w (Some f) data session_id)) =
           take k stage_keys \<and>
         consolidated (execute_async_analysis orch w (Some f) data session_id) = []"
proof -
  have q:
    "0 < k \<Longrightarrow> f 1 ''Executando pesquisa web massiva com dados reais...'' = None"
    "1 < k \<Longrightarrow> f 2 ''Analisando redes sociais com dados reais...'' = None"
    "2 < k \<Longrightarrow> f 3 ''Criando avatar ultra-detalhado com dados reais...'' = None"
    "3 < k \<Longrightarrow> f 4 ''Gerando drivers mentais customizados com dados reais...'' = None"
    "4 < k \<Longrightarrow> f 5 ''Criando provas visuais com dados reais...'' = None"
    "5 < k \<Longrightarrow> f 6 ''Desenvolvendo sistema anti-objecao com dados reais...'' = None"
    "6 < k \<Longrightarrow> f 7 ''Construindo pre-pitch invisivel com dados reais...'' = None"
    "7 < k \<Longrightarrow> f 8 ''Gerando predicoes futuras com dados reais...'' = None"
    "8 < k \<Longrightarrow> f 9 ''Analisando concorrencia com dados reais...'' = None"
    "9 < k \<Longrightarrow> f 10 ''Extraindo insights exclusivos com dados reais...'' = None"
    "10 < k \<Longrightarrow> f 11 ''Identificando palavras-chave estrategicas com dados reais...'' = None"
    "11 < k \<Longrightarrow> f 12 ''Otimizando funil de vendas com dados reais...'' = None"
    "12 < k \<Longrightarrow> f 13 ''Gerando relatorio final completo com dados reais...'' = None"
    using assms(2) by (auto simp: progress_plan_def)
  have defs: "phase (Some f) n m orc tr dn rest =
      (case f n m of
         Some e \<Rightarrow> \<lparr>returned_value = Inl e, final = orc, trace = tr @ [Callback n m],
                    stage_results = dn, consolidated = []\<rparr>
       | None \<Rightarrow> rest (tr @ [Callback n m]))" for n m orc tr dn rest
    by (simp add: phase_def)
  consider "k = 0" | "k = 1" | "k = 2" | "k = 3" | "k = 4" | "k = 5" | "k = 6" | "k = 7" | "k = 8" | "k = 9" | "k = 10" | "k = 11" | "k = 12"
    using below_thirteen [OF assms(1)] by blast
  then show ?thesis
  proof cases
    case 1
    then show ?thesis
      using assms(3) q
      by (simp add: execute_async_analysis_def Let_def defs progress_plan_def planned_events_def
          stage_keys_def)
  next
    case 2
    then show ?thesis
      using assms(3) q
      by (simp add: execute_async_analysis_def Let_def defs progress_plan_def planned_events_def
          stage_keys_def)
  next
    case 3
    then show ?thesis
      using assms(3) q
      by (simp add: execute_async_analysis_def Let_def defs progress_plan_def planned_events_def
          stage_keys_def)
  next
    case 4
    then show ?thesis
      using assms(3) q
      by (simp add: execute_async_analysis_def Let_def defs progress_plan_def planned_events_def
          stage_keys_def)
  next
    case 5
    then show ?thesis
      using assms(3) q
      by (simp add: execute_async_analysis_def Let_def defs progress_plan_def planned_events_def
          stage_keys_def)
  next
    case 6
    then show ?thesis
      using assms(3) q
      by (simp add: execute_async_analysis_def Let_def defs progress_plan_def planned_events_def
          stage_keys_def)
  next
    case 7
    then show ?thesis
      using assms(3) q
      by (simp add: execute_async_analysis_def Let_def defs progress_plan_def planned_events_def
          stage_keys_def)
  next
    case 8
    then show ?thesis
      using assms(3) q
      by (simp add: execute_async_analysis_def Let_def defs progress_plan_def planned_events_def
          stage_keys_def)
  next
    case 9
    then show ?thesis
      using assms(3) q
      by (simp add: execute_async_analysis_def Let_def defs progress_plan_def planned_events_def
          stage_keys_def)
  next
    case 10
    then show ?thesis
      using assms(3) q
      by (simp add: execute_async_analysis_def Let_def defs progress_plan_def planned_events_def
          stage_keys_def)
  next
    case 11
    then show ?thesis
      using assms(3) q
      by (simp add: execute_async_analysis_def Let_def defs progress_plan_def planned_events_def
          stage_keys_def)
  next
    case 12
    then show ?thesis
      using assms(3) q
      by (simp add: execute_async_analysis_def Let_def defs progress_plan_def planned_events_def
          stage_keys_def)
  next
    case 13
    then show ?thesis
      using assms(3) q
      by (simp add: execute_async_analysis_def Let_def defs progress_plan_def planned_events_def
          stage_keys_def)
  qed
qed

lemmas stage_defs =
  execute_real_web_search_def execute_real_web_search_body_def
  execute_real_social_analysis_def execute_real_social_analysis_body_def
  execute_real_avatar_analysis_def execute_real_avatar_analysis_body_def
  execute_real_mental_drivers_def execute_real_mental_drivers_body_def
  execute_real_visual_proofs_def execute_real_visual_proofs_body_def
  execute_real_anti_objection_def execute_real_anti_objection_body_def
  execute_real_pre_pitch_def execute_real_pre_pitch_body_def
  execute_real_future_predictions_def execute_real_future_predictions_body_def
  execute_real_competition_analysis_def execute_real_competition_analysis_body_def
  execute_real_insights_extraction_def execute_real_insights_extraction_body_def
  execute_real_keywords_analysis_def execute_real_keywords_analysis_body_def
  execute_real_sales_funnel_def execute_real_sales_funnel_body_def
  guarded_def then_do_def call_service_def is_success_def is_found_def len_of_def bool_of_def
  web_search_fallback_def social_limited_def mental_drivers_fallback_def



lemma first_failure:
  assumes "\<not> list_all P xs"
  shows "\<exists>k<length xs. (\<forall>j<k. P (xs ! j)) \<and> \<not> P (xs ! k)"
proof -
  from assms have "\<exists>n. n < length xs \<and> \<not> P (xs ! n)"
    by (auto simp: list_all_length)
  then obtain k where k: "k < length xs \<and> \<not> P (xs ! k)"
    and least: "\<forall>m<k. \<not> (m < length xs \<and> \<not> P (xs ! m))"
    unfolding exists_least_iff [of "\<lambda>n. n < length xs \<and> \<not> P (xs ! n)"] by blast
  then have "\<forall>j<k. P (xs ! j)" by auto
  with k show ?thesis by blast
qed

lemma first_raise:
  assumes "\<not> quiet (Some f)"
  shows "\<exists>k<13. (\<forall>j<k. f (fst (progress_plan ! j)) (fst (snd (progress_plan ! j))) = None) \<and>
           (\<exists>e. f (fst (progress_plan ! k)) (fst (snd (progress_plan ! k))) = Some e)"
proof -
  have len: "length progress_plan = 13" by (simp add: progress_plan_def)
  from assms have "\<not> list_all (\<lambda>(step, message, stage). f step message = None) progress_plan"
    by (simp add: quiet_def)
  from first_failure [OF this] show ?thesis
    unfolding len by (auto simp: split_def)
qed

lemma sync_after_raise:
  assumes "truthy data"
    and "returned_value (execute_async_analysis orch w cb data session_id) = Inl e"
  shows "execute_synchronized_analysis orch w cb data session_id =
           (case salvar_erro w of
              Some e' \<Rightarrow> (execute_async_analysis orch w cb data session_id)
                           \<lparr>returned_value := Inl e'\<rparr>
            | None \<Rightarrow> (execute_async_analysis orch w cb data session_id)
                \<lparr>returned_value := Inr (failure_envelope session_id e),
                 final := (final (execute_async_analysis orch w cb data session_id))
                            \<lparr>global_recursion_depth := []\<rparr>\<rparr>)"
  using assms by (simp add: execute_synchronized_analysis_def Let_def)

lemma success_field:
  "py_get (success_envelope session_id elapsed report) ''success'' PNone = Inr (PBool True)"
  "py_get (failure_envelope session_id e) ''success'' PNone = Inr (PBool False)"
  "py_get (success_envelope session_id elapsed report) ''report'' PNone = Inr report"
  by (simp_all add: success_envelope_def failure_envelope_def)

lemma run_outcome:
  assumes "truthy data"
  shows "(quiet cb \<and>
          returned_value (execute_synchronized_analysis orch w cb data session_id) =
            Inr (success_envelope session_id (clock_end w - clock_start w)
                   (generate_final_report orch w
                      (consolidated (execute_synchronized_analysis orch w cb data session_id))
                      session_id)) \<and>
          session_status (final (execute_synchronized_analysis orch w cb data session_id))
            session_id = Some ''completed'') \<or>
         (\<not> quiet cb \<and>
          (\<exists>e. returned_value (execute_synchronized_analysis orch w cb data session_id) =
             (case salvar_erro w of None \<Rightarrow> Inr (failure_envelope session_id e)
                                  | Some e' \<Rightarrow> Inl e')) \<and>
          session_status (final (execute_synchronized_analysis orch w cb data session_id))
            session_id = Some ''running'')"
proof (cases "quiet cb")
  case True
  note q = quiet_run [OF True, of orch w data session_id]
  show ?thesis
    using True q(1,2)
    by (simp add: quiet_sync_run [OF True assms] generate_final_report_def)
next
  case False
  then obtain f where f: "cb = Some f"
    by (cases cb) (simp_all add: quiet_def)
  from first_raise [OF False [unfolded f]] obtain k e where k: "k < 13"
    and b: "\<forall>j<k. f (fst (progress_plan ! j)) (fst (snd (progress_plan ! j))) = None"
    and r: "f (fst (progress_plan ! k)) (fst (snd (progress_plan ! k))) = Some e"
    by blast
  note a = aborted_async_run [OF k b r, of orch w data session_id]
  from a have rv: "returned_value (execute_async_analysis orch w cb data session_id) = Inl e"
    by (simp add: f)
  from a have fin: "final (execute_async_analysis orch w cb data session_id) =
      orch\<lparr>global_recursion_depth := [],
            execution_state := (execution_state orch)
              (session_id \<mapsto> running_session (clock_start w))\<rparr>"
    by (simp add: f)
  show ?thesis
    using False
    by (auto simp: sync_after_raise [OF assms rv] fin session_status_def running_session_def
        split: option.splits)
qed

lemma quiet_trace:
  assumes "quiet (Some f)"
  shows "trace (execute_async_analysis orch w (Some f) data session_id) =
           planned_events progress_plan"
  by (simp add: execute_async_analysis_def Let_def phase_quiet_plan [OF assms]
      announced_def planned_events_def progress_plan_def)

lemmas report_defs =
  generate_final_report_def generate_final_report_body_def error_report_def
  gerar_relatorio_pesquisa_web_def gerar_relatorio_social_def gerar_relatorio_avatar_def
  gerar_relatorio_drivers_def gerar_relatorio_provas_def gerar_relatorio_anti_objecao_def
  gerar_relatorio_funil_def get_if_dict_def len_if_dict_def posts_if_dict_def bool_if_dict_def
  count_status_def component_def

lemmas run_defs =
  execute_synchronized_analysis_def execute_async_analysis_def phase_def Let_def
  safe_call_service_method_def table_of_def method_not_found_def
  success_envelope_def failure_envelope_def complete_session_def running_session_def
  session_status_def status_of_def quoted_def
  bare_orchestrator_def odd_websailor_def quiet_world_def fitness_request_def raising_at_def
  quiet_callback_def

lemma odd_body:
  "generate_final_report_body odd_websailor quiet_world
     (consolidated
        (execute_synchronized_analysis odd_websailor quiet_world None fitness_request ''s1''))
     ''s1'' = Inl (''object of type '' @ quoted ''int'' @ '' has no len()'')"
  by (simp add: run_defs stage_defs report_defs)







lemma odd_facts:
  "quiet None" "truthy fitness_request"
  by (simp_all add: quiet_def fitness_request_def)

lemma failing_facts:
  "raising_at 3 (fst (progress_plan ! 2)) (fst (snd (progress_plan ! 2))) = Some ''disk full''"
  "\<forall>j<2. raising_at 3 (fst (progress_plan ! j)) (fst (snd (progress_plan ! j))) = None"
  "(2::nat) < 13"
  by (simp_all add: raising_at_def progress_plan_def less_Suc_eq numeral_2_eq_2)

lemma failing_run:
  "returned_value (execute_synchronized_analysis bare_orchestrator quiet_world
      (Some (raising_at 3)) fitness_request ''s1'') = Inr (failure_envelope ''s1'' ''disk full'')"
  "session_status (final (execute_synchronized_analysis bare_orchestrator quiet_world
      (Some (raising_at 3)) fitness_request ''s1'')) ''s1'' = Some ''running''"
  "map fst (stage_results (execute_synchronized_analysis bare_orchestrator quiet_world
      (Some (raising_at 3)) fitness_request ''s1'')) =
    [''pesquisa_web_massiva'', ''analise_redes_sociais'']"
proof -
  note a = aborted_async_run [OF failing_facts(3,2,1), of bare_orchestrator quiet_world
      fitness_request "''s1''"]
  then have rv: "returned_value (execute_async_analysis bare_orchestrator quiet_world
      (Some (raising_at 3)) fitness_request ''s1'') = Inl ''disk full''"
    by simp
  note s = sync_after_raise [OF odd_facts(2) rv]
  show "returned_value (execute_synchronized_analysis bare_orchestrator quiet_world
      (Some (raising_at 3)) fitness_request ''s1'') = Inr (failure_envelope ''s1'' ''disk full'')"
    unfolding s by (simp add: quiet_world_def)
  show "session_status (final (execute_synchronized_analysis bare_orchestrator quiet_world
      (Some (raising_at 3)) fitness_request ''s1'')) ''s1'' = Some ''running''"
    unfolding s using a by (simp add: quiet_world_def session_status_def running_session_def)
  show "map fst (stage_results (execute_synchronized_analysis bare_orchestrator quiet_world
      (Some (raising_at 3)) fitness_request ''s1'')) =
    [''pesquisa_web_massiva'', ''analise_redes_sociais'']"
    unfolding s using a by (simp add: quiet_world_def stage_keys_def)
qed

text \<open>
  Claim C3, as the code has it. \<^verbatim>\<open>_generate_final_report_async\<close> catches what the
  consolidation raises: in a run on non-empty data with a quiet progress callback, when the
  body of the consolidation raises, the run still returns the success envelope
  (\<^verbatim>\<open>success: True\<close>), its report being the error report built from the exception, and
  the session ends \<^verbatim>\<open>completed\<close>. A run on non-empty data returns a failure envelope
  only when the progress callback raised; that envelope holds \<^verbatim>\<open>success\<close>,
  \<^verbatim>\<open>session_id\<close>, \<^verbatim>\<open>error\<close> and \<^verbatim>\<open>emergency_mode\<close> and no stage result, and the session
  is left \<^verbatim>\<open>running\<close>. No run sets the status \<^verbatim>\<open>error\<close>.
\<close>

theorem consolidation_failure_is_absorbed:
  assumes "truthy data"
  shows "(let r = execute_synchronized_analysis orch w progress_callback data session_id in
          (quiet progress_callback \<and>
           generate_final_report_body orch w (consolidated r) session_id = Inl e \<longrightarrow>
             returned_value r =
               Inr (success_envelope session_id (clock_end w - clock_start w)
                      (error_report w session_id e)) \<and>
             py_get (success_envelope session_id (clock_end w - clock_start w)
                      (error_report w session_id e)) ''success'' PNone = Inr (PBool True) \<and>
             session_status (final r) session_id = Some ''completed'' \<and>
             map fst (stage_results r) = stage_keys) \<and>
          (\<forall>v. returned_value r = Inr v \<and> py_get v ''success'' PNone = Inr (PBool False) \<longrightarrow>
             \<not> quiet progress_callback \<and>
             (\<exists>e'. v = PDict [(''success'', PBool False), (''session_id'', PStr session_id),
                              (''error'', PStr e'), (''emergency_mode'', PBool True)]) \<and>
             session_status (final r) session_id = Some ''running'') \<and>
          session_status (final r) session_id \<noteq> Some ''error'')"
proof -
  let ?r = "execute_synchronized_analysis orch w progress_callback data session_id"
  note o = run_outcome [OF assms, of progress_callback orch w session_id]
  have one: "returned_value ?r =
               Inr (success_envelope session_id (clock_end w - clock_start w)
                      (error_report w session_id e)) \<and>
             py_get (success_envelope session_id (clock_end w - clock_start w)
                      (error_report w session_id e)) ''success'' PNone = Inr (PBool True) \<and>
             session_status (final ?r) session_id = Some ''completed'' \<and>
             map fst (stage_results ?r) = stage_keys"
    if q: "quiet progress_callback"
      and b: "generate_final_report_body orch w (consolidated ?r) session_id = Inl e"
  proof -
    have "generate_final_report orch w (consolidated ?r) session_id = error_report w session_id e"
      by (simp add: generate_final_report_def guarded_def b)
    moreover have "map fst (stage_results ?r) = stage_keys"
      unfolding quiet_sync_run [OF q assms] by (rule quiet_run(4) [OF q])
    ultimately show ?thesis
      using o q by (simp add: success_field)
  qed
  have two: "\<not> quiet progress_callback \<and>
             (\<exists>e'. v = PDict [(''success'', PBool False), (''session_id'', PStr session_id),
                              (''error'', PStr e'), (''emergency_mode'', PBool True)]) \<and>
             session_status (final ?r) session_id = Some ''running''"
    if rv: "returned_value ?r = Inr v" and f: "py_get v ''success'' PNone = Inr (PBool False)" for v
  proof (cases "quiet progress_callback")
    case True
    with o rv f show ?thesis by (auto simp: success_field)
  next
    case False
    with o rv show ?thesis
      by (auto simp: failure_envelope_def split: option.splits)
  qed
  have three: "session_status (final ?r) session_id \<noteq> Some ''error''"
    using o by auto
  show ?thesis
    unfolding Let_def using one two three by blast
qed


theorem consolidation_failure_is_absorbed_witness:
  "truthy fitness_request \<and> quiet None \<and>
   generate_final_report_body odd_websailor quiet_world
     (consolidated (execute_synchronized_analysis odd_websailor quiet_world None
        fitness_request ''s1'')) ''s1'' =
     Inl (''object of type '' @ quoted ''int'' @ '' has no len()'') \<and>
   returned_value (execute_synchronized_analysis odd_websailor quiet_world None
      fitness_request ''s1'') =
     Inr (success_envelope ''s1'' (clock_end quiet_world - clock_start quiet_world)
            (error_report quiet_world ''s1''
               (''object of type '' @ quoted ''int'' @ '' has no len()''))) \<and>
   session_status (final (execute_synchronized_analysis odd_websailor quiet_world None
      fitness_request ''s1'')) ''s1'' = Some ''completed'' \<and>
   returned_value (execute_synchronized_analysis bare_orchestrator quiet_world
      (Some (raising_at 3)) fitness_request ''s1'') = Inr (failure_envelope ''s1'' ''disk full'') \<and>
   py_get (failure_envelope ''s1'' ''disk full'') ''success'' PNone = Inr (PBool False) \<and>
   \<not> quiet (Some (raising_at 3)) \<and>
   session_status (final (execute_synchronized_analysis bare_orchestrator quiet_world
      (Some (raising_at 3)) fitness_request ''s1'')) ''s1'' = Some ''running''"
proof -
  note t1 = consolidation_failure_is_absorbed [OF odd_facts(2), of odd_websailor quiet_world None
      "''s1''" "''object of type '' @ quoted ''int'' @ '' has no len()''", unfolded Let_def]
  note t2 = consolidation_failure_is_absorbed [OF odd_facts(2), of bare_orchestrator quiet_world
      "Some (raising_at 3)" "''s1''" "[]", unfolded Let_def]
  have h: "quiet None \<and>
      generate_final_report_body odd_websailor quiet_world
        (consolidated (execute_synchronized_analysis odd_websailor quiet_world None
           fitness_request ''s1'')) ''s1'' =
        Inl (''object of type '' @ quoted ''int'' @ '' has no len()'')"
    using odd_facts(1) odd_body by (rule conjI)
  from t1 [THEN conjunct1, THEN mp, OF h]
  have c1: "returned_value (execute_synchronized_analysis odd_websailor quiet_world None
      fitness_request ''s1'') =
     Inr (success_envelope ''s1'' (clock_end quiet_world - clock_start quiet_world)
            (error_report quiet_world ''s1''
               (''object of type '' @ quoted ''int'' @ '' has no len()'')))"
    and c2: "session_status (final (execute_synchronized_analysis odd_websailor quiet_world None
      fitness_request ''s1'')) ''s1'' = Some ''completed''"
    by blast+
  have f: "py_get (failure_envelope ''s1'' ''disk full'') ''success'' PNone = Inr (PBool False)"
    by (rule success_field(2))
  from t2 [THEN conjunct2, THEN conjunct1, THEN spec, THEN mp, OF conjI [OF failing_run(1) f]]
  have c3: "\<not> quiet (Some (raising_at 3))"
    and c4: "session_status (final (execute_synchronized_analysis bare_orchestrator quiet_world
      (Some (raising_at 3)) fitness_request ''s1'')) ''s1'' = Some ''running''"
    by blast+
  show ?thesis
    by (intro conjI odd_facts odd_body c1 c2 failing_run(1) f c3 c4)
qed

text \<open>
  Claim C3 as stated fails: WebSailor reports an integer as \<^verbatim>\<open>processed_results\<close>, the
  consolidation raises on its length, and the run returns \<^verbatim>\<open>success: True\<close> with the
  session \<^verbatim>\<open>completed\<close>.
\<close>

theorem consolidation_failure_counterexample:
  "(\<exists>e. generate_final_report_body odd_websailor quiet_world
          (consolidated (execute_synchronized_analysis odd_websailor quiet_world None
             fitness_request ''s1'')) ''s1'' = Inl e) \<and>
   (\<exists>v. returned_value (execute_synchronized_analysis odd_websailor quiet_world None
          fitness_request ''s1'') = Inr v \<and>
        py_get v ''success'' PNone = Inr (PBool True)) \<and>
   session_status (final (execute_synchronized_analysis odd_websailor quiet_world None
      fitness_request ''s1'')) ''s1'' = Some ''completed''"
proof -
  note o = run_outcome [OF odd_facts(2), of None odd_websailor quiet_world "''s1''"]
  have b: "\<exists>e. generate_final_report_body odd_websailor quiet_world
          (consolidated (execute_synchronized_analysis odd_websailor quiet_world None
             fitness_request ''s1'')) ''s1'' = Inl e"
    using odd_body by (rule exI)
  from o odd_facts(1) have "\<exists>v. returned_value (execute_synchronized_analysis odd_websailor
      quiet_world None fitness_request ''s1'') = Inr v \<and>
        py_get v ''success'' PNone = Inr (PBool True)"
    by (auto simp: success_field)
  moreover from o odd_facts(1) have "session_status (final (execute_synchronized_analysis
      odd_websailor quiet_world None fitness_request ''s1'')) ''s1'' = Some ''completed''"
    by auto
  ultimately show ?thesis
    using b by blast
qed

text \<open>
  Claim C4, as the code has it. A progress callback that is supplied is called before
  each of the twelve stages and before the consolidation, in order. An exception it
  raises is not caught where it is called: when its first exception comes at the call
  number \<open>k\<close> (counted from zero), only the first \<open>k\<close> stages have run, the session is
  left \<^verbatim>\<open>running\<close>, and \<^verbatim>\<open>execute_synchronized_analysis\<close> returns the failure envelope
  with the exception's message (or lets the exception of \<^verbatim>\<open>salvar_erro\<close> through).
\<close>

theorem progress_callback_exception_aborts_run:
  assumes "truthy data"
  shows "(let r = execute_synchronized_analysis orch w (Some f) data session_id in
          (quiet (Some f) \<longrightarrow> trace r = planned_events progress_plan) \<and>
          (\<forall>k e. k < 13 \<and>
             (\<forall>j<k. f (fst (progress_plan ! j)) (fst (snd (progress_plan ! j))) = None) \<and>
             f (fst (progress_plan ! k)) (fst (snd (progress_plan ! k))) = Some e \<longrightarrow>
               returned_value r =
                 (case salvar_erro w of
                    None \<Rightarrow> Inr (failure_envelope session_id e)
                  | Some e' \<Rightarrow> Inl e') \<and>
               session_status (final r) session_id = Some ''running'' \<and>
               trace r = planned_events (take k progress_plan) @
                 [Callback (fst (progress_plan ! k)) (fst (snd (progress_plan ! k)))] \<and>
               map fst (stage_results r) = take k stage_keys))"
proof -
  let ?r = "execute_synchronized_analysis orch w (Some f) data session_id"
  let ?a = "execute_async_analysis orch w (Some f) data session_id"
  have one: "trace ?r = planned_events progress_plan" if q: "quiet (Some f)"
    unfolding quiet_sync_run [OF q assms] by (rule quiet_trace [OF q])
  have two: "returned_value ?r =
                 (case salvar_erro w of
                    None \<Rightarrow> Inr (failure_envelope session_id e)
                  | Some e' \<Rightarrow> Inl e') \<and>
               session_status (final ?r) session_id = Some ''running'' \<and>
               trace ?r = planned_events (take k progress_plan) @
                 [Callback (fst (progress_plan ! k)) (fst (snd (progress_plan ! k)))] \<and>
               map fst (stage_results ?r) = take k stage_keys"
    if k: "k < 13"
      and b: "\<forall>j<k. f (fst (progress_plan ! j)) (fst (snd (progress_plan ! j))) = None"
      and r: "f (fst (progress_plan ! k)) (fst (snd (progress_plan ! k))) = Some e" for k e
  proof -
    note a = aborted_async_run [OF k b r, of orch w data session_id]
    then have rv: "returned_value ?a = Inl e" by simp
    show ?thesis
      unfolding sync_after_raise [OF assms rv] using a
      by (simp add: session_status_def running_session_def split: option.splits)
  qed
  show ?thesis
    unfolding Let_def using one two by blast
qed

lemma quiet_callback_quiet: "quiet (Some quiet_callback)"
  by (simp add: quiet_def quiet_callback_def list_all_iff)

theorem progress_callback_exception_aborts_run_witness:
  "truthy fitness_request \<and>
   quiet (Some quiet_callback) \<and>
   trace (execute_synchronized_analysis bare_orchestrator quiet_world (Some quiet_callback)
      fitness_request ''s1'') = planned_events progress_plan \<and>
   (2::nat) < 13 \<and>
   raising_at 3 (fst (progress_plan ! 0)) (fst (snd (progress_plan ! 0))) = None \<and>
   raising_at 3 (fst (progress_plan ! 1)) (fst (snd (progress_plan ! 1))) = None \<and>
   raising_at 3 (fst (progress_plan ! 2)) (fst (snd (progress_plan ! 2))) = Some ''disk full'' \<and>
   returned_value (execute_synchronized_analysis bare_orchestrator quiet_world
      (Some (raising_at 3)) fitness_request ''s1'') =
     (case salvar_erro quiet_world of
        None \<Rightarrow> Inr (failure_envelope ''s1'' ''disk full'')
      | Some e' \<Rightarrow> Inl e') \<and>
   session_status (final (execute_synchronized_analysis bare_orchestrator quiet_world
      (Some (raising_at 3)) fitness_request ''s1'')) ''s1'' = Some ''running'' \<and>
   trace (execute_synchronized_analysis bare_orchestrator quiet_world
      (Some (raising_at 3)) fitness_request ''s1'') =
     planned_events (take 2 progress_plan) @
       [Callback (fst (progress_plan ! 2)) (fst (snd (progress_plan ! 2)))] \<and>
   map fst (stage_results (execute_synchronized_analysis bare_orchestrator quiet_world
      (Some (raising_at 3)) fitness_request ''s1'')) = take 2 stage_keys"
proof -
  note t1 = progress_callback_exception_aborts_run [OF odd_facts(2), of bare_orchestrator
      quiet_world quiet_callback "''s1''", unfolded Let_def]
  note t2 = progress_callback_exception_aborts_run [OF odd_facts(2), of bare_orchestrator
      quiet_world "raising_at 3" "''s1''", unfolded Let_def]
  have c1: "trace (execute_synchronized_analysis bare_orchestrator quiet_world
      (Some quiet_callback) fitness_request ''s1'') = planned_events progress_plan"
    by (rule t1 [THEN conjunct1, THEN mp, OF quiet_callback_quiet])
  have n0: "raising_at 3 (fst (progress_plan ! 0)) (fst (snd (progress_plan ! 0))) = None"
    and n1: "raising_at 3 (fst (progress_plan ! 1)) (fst (snd (progress_plan ! 1))) = None"
    using failing_facts(2) by simp_all
  note c2 = t2 [THEN conjunct2, THEN spec, THEN spec, THEN mp,
      OF conjI [OF failing_facts(3) conjI [OF failing_facts(2) failing_facts(1)]]]
  show ?thesis
    by (intro conjI odd_facts(2) quiet_callback_quiet c1 failing_facts(3) n0 n1 failing_facts(1)
        c2 [THEN conjunct1] c2 [THEN conjunct2, THEN conjunct1]
        c2 [THEN conjunct2, THEN conjunct2, THEN conjunct1]
        c2 [THEN conjunct2, THEN conjunct2, THEN conjunct2])
qed

text \<open>
  Claim C4 as stated fails: with a callback that raises at its third call the run returns
  \<^verbatim>\<open>success: False\<close> after two stages and leaves the session \<^verbatim>\<open>running\<close>; with a
  callback that returns normally the same run returns \<^verbatim>\<open>success: True\<close> after twelve
  stages and the session is \<^verbatim>\<open>completed\<close>.
\<close>

theorem progress_callback_exception_counterexample:
  "returned_value (execute_synchronized_analysis bare_orchestrator quiet_world
      (Some (raising_at 3)) fitness_request ''s1'') =
     Inr (PDict [(''success'', PBool False), (''session_id'', PStr ''s1''),
                 (''error'', PStr ''disk full''), (''emergency_mode'', PBool True)]) \<and>
   session_status (final (execute_synchronized_analysis bare_orchestrator quiet_world
      (Some (raising_at 3)) fitness_request ''s1'')) ''s1'' = Some ''running'' \<and>
   map fst (stage_results (execute_synchronized_analysis bare_orchestrator quiet_world
      (Some (raising_at 3)) fitness_request ''s1'')) =
     [''pesquisa_web_massiva'', ''analise_redes_sociais''] \<and>
   (\<exists>v. returned_value (execute_synchronized_analysis bare_orchestrator quiet_world
          (Some quiet_callback) fitness_request ''s1'') = Inr v \<and>
        py_get v ''success'' PNone = Inr (PBool True)) \<and>
   session_status (final (execute_synchronized_analysis bare_orchestrator quiet_world
      (Some quiet_callback) fitness_request ''s1'')) ''s1'' = Some ''completed'' \<and>
   length (stage_results (execute_synchronized_analysis bare_orchestrator quiet_world
      (Some quiet_callback) fitness_request ''s1'')) = 12"
proof -
  note o = run_outcome [OF odd_facts(2), of "Some quiet_callback" bare_orchestrator quiet_world
      "''s1''"]
  from o quiet_callback_quiet have c4: "\<exists>v. returned_value (execute_synchronized_analysis
      bare_orchestrator quiet_world (Some quiet_callback) fitness_request ''s1'') = Inr v \<and>
        py_get v ''success'' PNone = Inr (PBool True)"
    by (auto simp: success_field)
  from o quiet_callback_quiet have c5: "session_status (final (execute_synchronized_analysis
      bare_orchestrator quiet_world (Some quiet_callback) fitness_request ''s1'')) ''s1'' =
      Some ''completed''"
    by auto
  have "map fst (stage_results (execute_synchronized_analysis bare_orchestrator quiet_world
      (Some quiet_callback) fitness_request ''s1'')) = stage_keys"
    unfolding quiet_sync_run [OF quiet_callback_quiet odd_facts(2)]
    by (rule quiet_run(4) [OF quiet_callback_quiet])
  then have "length (map fst (stage_results (execute_synchronized_analysis bare_orchestrator
      quiet_world (Some quiet_callback) fitness_request ''s1''))) = 12"
    by (simp add: stage_keys_def)
  then have c6: "length (stage_results (execute_synchronized_analysis bare_orchestrator
      quiet_world (Some quiet_callback) fitness_request ''s1'')) = 12"
    by simp
  show ?thesis
    using failing_run c4 c5 c6 by (simp add: failure_envelope_def)
qed


section \<open>Properties of the route\<close>

lemma pipeline_analyze_handler [simp]:
  "pipeline (analyze_handler w sessions sid started e) = started"
  by (simp add: analyze_handler_def split: option.splits sum.splits)

lemma read_request_fields:
  assumes "read_request w data = Inr (sg, pr, pub, ob, ctx, q)"
  shows "\<exists>d. data = PDict d \<and>
           sg = (case map_of d ''segmento'' of None \<Rightarrow> PNone | Some v \<Rightarrow> v) \<and>
           pr = (case map_of d ''produto'' of None \<Rightarrow> PNone | Some v \<Rightarrow> v)"
  using assms by (cases data) (auto simp: read_request_def then_do_def)

lemma missing_fields_no_pipeline:
  assumes "\<not> has_mandatory_fields data"
  shows "pipeline (analyze orch w sessions data) = None"
proof (cases "read_request w data")
  case (Inl e)
  then show ?thesis
    by (simp add: analyze_def split: sum.splits option.splits)
next
  case (Inr t)
  obtain sg pr pub ob ctx q where t: "t = (sg, pr, pub, ob, ctx, q)"
    by (cases t) auto
  from read_request_fields [OF Inr [unfolded t]] obtain d where d: "data = PDict d"
    and s: "sg = (case map_of d ''segmento'' of None \<Rightarrow> PNone | Some v \<Rightarrow> v)"
    and p: "pr = (case map_of d ''produto'' of None \<Rightarrow> PNone | Some v \<Rightarrow> v)"
    by blast
  from assms have "\<not> truthy sg \<or> \<not> truthy pr"
    unfolding d s p by (auto simp: has_mandatory_fields_def split: option.splits)
  then show ?thesis
    using Inr t by (auto simp: analyze_def Let_def split: sum.splits option.splits)
qed

text \<open>
  Claim C9, as the code has it. A request without its mandatory fields never starts the
  pipeline, whatever the session helpers do. When its body is empty or missing the answer
  is HTTP 400 with a body that holds an error message only; when its body is a non-empty
  object and the session helpers return, the answer is HTTP 400 with \<^verbatim>\<open>success: False\<close>,
  the message and the identifier of the session that was opened.
\<close>

theorem missing_fields_rejected:
  assumes "\<not> has_mandatory_fields data"
  shows "pipeline (analyze orch w sessions data) = None \<and>
         (\<not> truthy data \<longrightarrow>
            answer (analyze orch w sessions data) =
              Response 400 (PDict [(''error'', PStr ''Dados nao fornecidos'')])) \<and>
         (truthy data \<and> is_dict data \<and> iniciar_sessao w = Inr session_id \<and>
          salvar_etapa w ''requisicao_analise'' = None \<and>
          salvar_etapa w ''query_preparada'' = None \<longrightarrow>
            answer (analyze orch w sessions data) =
              Response 400 (PDict [(''success'', PBool False),
                                   (''error'', PStr missing_fields_message),
                                   (''session_id'', PStr session_id)]))"
proof (intro conjI impI)
  show "pipeline (analyze orch w sessions data) = None"
    by (rule missing_fields_no_pipeline [OF assms])
next
  assume "\<not> truthy data"
  then show "answer (analyze orch w sessions data) =
      Response 400 (PDict [(''error'', PStr ''Dados nao fornecidos'')])"
    by (simp add: analyze_def)
next
  assume a: "truthy data \<and> is_dict data \<and> iniciar_sessao w = Inr session_id \<and>
          salvar_etapa w ''requisicao_analise'' = None \<and>
          salvar_etapa w ''query_preparada'' = None"
  then obtain d where d: "data = PDict d"
    by (cases data) simp_all
  obtain sg pr pub ob ctx q where r: "read_request w data = Inr (sg, pr, pub, ob, ctx, q)"
    unfolding d by (simp add: read_request_def then_do_def)
  from read_request_fields [OF r] assms have "\<not> truthy sg \<or> \<not> truthy pr"
    by (auto simp: has_mandatory_fields_def split: option.splits)
  then show "answer (analyze orch w sessions data) =
              Response 400 (PDict [(''success'', PBool False),
                                   (''error'', PStr missing_fields_message),
                                   (''session_id'', PStr session_id)])"
    using a r by (auto simp: analyze_def Let_def)
qed

lemma only_query_facts:
  "\<not> has_mandatory_fields only_query" "truthy only_query" "is_dict only_query"
  "iniciar_sessao quiet_route_world = Inr ''s1''"
  "salvar_etapa quiet_route_world ''requisicao_analise'' = None"
  "salvar_etapa quiet_route_world ''query_preparada'' = None"
  "\<not> has_mandatory_fields (PDict [])" "\<not> truthy (PDict [])"
  by (simp_all add: has_mandatory_fields_def only_query_def quiet_route_world_def
      world.extend_def)

theorem missing_fields_rejected_witness:
  "\<not> has_mandatory_fields only_query \<and> truthy only_query \<and> is_dict only_query \<and>
   iniciar_sessao quiet_route_world = Inr ''s1'' \<and>
   salvar_etapa quiet_route_world ''requisicao_analise'' = None \<and>
   salvar_etapa quiet_route_world ''query_preparada'' = None \<and>
   pipeline (analyze bare_orchestrator quiet_route_world Map.empty only_query) = None \<and>
   answer (analyze bare_orchestrator quiet_route_world Map.empty only_query) =
     Response 400 (PDict [(''success'', PBool False),
                          (''error'', PStr missing_fields_message),
                          (''session_id'', PStr ''s1'')]) \<and>
   \<not> has_mandatory_fields (PDict []) \<and> \<not> truthy (PDict []) \<and>
   answer (analyze bare_orchestrator quiet_route_world Map.empty (PDict [])) =
     Response 400 (PDict [(''error'', PStr ''Dados nao fornecidos'')])"
proof -
  note t1 = missing_fields_rejected [OF only_query_facts(1), of bare_orchestrator
      quiet_route_world Map.empty "''s1''"]
  note t2 = missing_fields_rejected [OF only_query_facts(7), of bare_orchestrator
      quiet_route_world Map.empty "''s1''"]
  have h: "truthy only_query \<and> is_dict only_query \<and>
      iniciar_sessao quiet_route_world = Inr ''s1'' \<and>
      salvar_etapa quiet_route_world ''requisicao_analise'' = None \<and>
      salvar_etapa quiet_route_world ''query_preparada'' = None"
    by (intro conjI only_query_facts)
  show ?thesis
    by (intro conjI only_query_facts t1 [THEN conjunct1]
        t1 [THEN conjunct2, THEN conjunct2, THEN mp, OF h]
        t2 [THEN conjunct2, THEN conjunct1, THEN mp, OF only_query_facts(8)])
qed

text \<open>
  Claim C9 as stated fails on the body of the answer: for the empty object, in which both
  fields are absent, the answer is HTTP 400 without any \<^verbatim>\<open>success\<close> field.
\<close>

theorem empty_body_counterexample:
  "\<not> has_mandatory_fields (PDict []) \<and>
   answer (analyze bare_orchestrator quiet_route_world Map.empty (PDict [])) =
     Response 400 (PDict [(''error'', PStr ''Dados nao fornecidos'')]) \<and>
   py_get (PDict [(''error'', PStr ''Dados nao fornecidos'')]) ''success'' PNone = Inr PNone \<and>
   PNone \<noteq> PBool False"
  by (simp add: analyze_def has_mandatory_fields_def)


end
